theory Spec2Isabelle
  imports Main "HOL-Library.Word"
begin

unbundle bit_operations_syntax

section \<open>The file operations of the ZFS POSIX layer (module/zfs/zpl_file.c)\<close>

text \<open>
  A shallow embedding of \<^verbatim>\<open>module/zfs/zpl_file.c\<close>. C integers are words of
  their width: \<^verbatim>\<open>int\<close> and \<^verbatim>\<open>unsigned int\<close> are 32 bits, \<^verbatim>\<open>size_t\<close>,
  \<^verbatim>\<open>ssize_t\<close>, \<^verbatim>\<open>loff_t\<close>, \<^verbatim>\<open>long\<close> and \<^verbatim>\<open>uint64_t\<close> are 64 bits. A
  signed C type is read with \<open>sint\<close> and compared with \<open><s\<close>; arithmetic wraps.
  Pointers to kernel objects are identifiers.
\<close>

subsection \<open>C types\<close>

type_synonym c_int = "32 word"
type_synonym c_uint = "32 word"
type_synonym c_long = "64 word"
type_synonym c_ulong = "64 word"
type_synonym size_t = "64 word"
type_synonym ssize_t = "64 word"
type_synonym loff_t = "64 word"
type_synonym uint64_t = "64 word"

type_synonym inode = nat
type_synonym cred_t = nat
type_synonym user_ptr = "64 word"
type_synonym page_ptr = nat

subsection \<open>Constants of the Linux headers\<close>

text \<open>
  The error numbers of \<^verbatim>\<open>asm-generic/errno-base.h\<close> and \<^verbatim>\<open>errno.h\<close>, and the
  inode flags of \<^verbatim>\<open>linux/fs.h\<close> that the file is compiled against.
\<close>

definition ENOMEM :: c_int where "ENOMEM = 12"
definition EACCES :: c_int where "EACCES = 13"
definition ENOTTY :: c_int where "ENOTTY = 25"
definition EOPNOTSUPP :: c_int where "EOPNOTSUPP = 95"

definition FS_SYNC_FL :: c_uint where "FS_SYNC_FL = 0x00000008"
definition FS_IMMUTABLE_FL :: c_uint where "FS_IMMUTABLE_FL = 0x00000010"
definition FS_APPEND_FL :: c_uint where "FS_APPEND_FL = 0x00000020"
definition FS_NODUMP_FL :: c_uint where "FS_NODUMP_FL = 0x00000040"
definition FS_NOATIME_FL :: c_uint where "FS_NOATIME_FL = 0x00000080"
definition FS_DIRSYNC_FL :: c_uint where "FS_DIRSYNC_FL = 0x00010000"
definition FS_FL_USER_VISIBLE :: c_uint where "FS_FL_USER_VISIBLE = 0x0003DFFF"
definition FS_FL_USER_MODIFIABLE :: c_uint where "FS_FL_USER_MODIFIABLE = 0x000380FF"

subsection \<open>Constants of the ZFS headers\<close>

text \<open>
  The \<^verbatim>\<open>ZFS_*\<close> attribute bits of \<^verbatim>\<open>zp_flags\<close> and the two ioctl command codes
  are declared in headers (\<^verbatim>\<open>sys/zfs_znode.h\<close>, \<^verbatim>\<open>sys/zpl.h\<close>) that are not
  part of the file; the functions below take them as a parameter.
\<close>

record zfs_h =
  ZFS_IMMUTABLE :: uint64_t
  ZFS_APPENDONLY :: uint64_t
  ZFS_NODUMP :: uint64_t
  ZFS_DIRSYNC :: uint64_t
  ZFS_SYNC :: uint64_t
  ZFS_NOATIME :: uint64_t
  ZFS_IOC_GETFLAGS :: c_uint
  ZFS_IOC_SETFLAGS :: c_uint

subsection \<open>Attribute flag translation\<close>

text \<open>\<^verbatim>\<open>zpl_get_ioctl_flags\<close>, lines 400-424: six independent tests, then the mask.\<close>

definition zpl_get_ioctl_flags :: "zfs_h \<Rightarrow> uint64_t \<Rightarrow> c_uint" where
  "zpl_get_ioctl_flags H zfs_flags =
     (let ioctl_flags = 0;
          ioctl_flags = (if zfs_flags AND ZFS_IMMUTABLE H \<noteq> 0
                         then ioctl_flags OR FS_IMMUTABLE_FL else ioctl_flags);
          ioctl_flags = (if zfs_flags AND ZFS_APPENDONLY H \<noteq> 0
                         then ioctl_flags OR FS_APPEND_FL else ioctl_flags);
          ioctl_flags = (if zfs_flags AND ZFS_NODUMP H \<noteq> 0
                         then ioctl_flags OR FS_NODUMP_FL else ioctl_flags);
          ioctl_flags = (if zfs_flags AND ZFS_DIRSYNC H \<noteq> 0
                         then ioctl_flags OR FS_DIRSYNC_FL else ioctl_flags);
          ioctl_flags = (if zfs_flags AND ZFS_SYNC H \<noteq> 0
                         then ioctl_flags OR FS_SYNC_FL else ioctl_flags);
          ioctl_flags = (if zfs_flags AND ZFS_NOATIME H \<noteq> 0
                         then ioctl_flags OR FS_NOATIME_FL else ioctl_flags)
      in ioctl_flags AND FS_FL_USER_VISIBLE)"


definition setflags_mask :: c_uint where
  "setflags_mask = (FS_IMMUTABLE_FL OR FS_APPEND_FL OR FS_NODUMP_FL OR
                    FS_DIRSYNC_FL OR FS_SYNC_FL OR FS_NOATIME_FL)"




text \<open>
  Values for the header's constants, used where a statement is evaluated: the three
  attribute bits of the OpenSolaris \<^verbatim>\<open>zfs_znode.h\<close>, three further bits for the
  attributes added for Linux, and the command codes of \<^verbatim>\<open>FS_IOC_GETFLAGS\<close> and
  \<^verbatim>\<open>FS_IOC_SETFLAGS\<close>.
\<close>

definition sample_zfs_h :: zfs_h where
  "sample_zfs_h =
     \<lparr> ZFS_IMMUTABLE = 0x0000001000000000,
       ZFS_APPENDONLY = 0x0000004000000000,
       ZFS_NODUMP = 0x0000008000000000,
       ZFS_DIRSYNC = 0x0001000000000000,
       ZFS_SYNC = 0x0002000000000000,
       ZFS_NOATIME = 0x0004000000000000,
       ZFS_IOC_GETFLAGS = 0x80086601,
       ZFS_IOC_SETFLAGS = 0x40086602 \<rparr>"

section \<open>Kernel objects, the engine and the host\<close>

subsection \<open>Objects\<close>

datatype uio_seg_t = UIO_USERSPACE | UIO_SYSSPACE | UIO_USERISPACE

record iovec =
  iov_base :: user_ptr
  iov_len :: size_t

record uio_t =
  uio_iov :: "iovec list"
  uio_iovcnt :: c_int
  uio_loffset :: loff_t
  uio_limit :: loff_t
  uio_segflg :: uio_seg_t
  uio_resid :: ssize_t

text \<open>
  \<^verbatim>\<open>struct file\<close>: the fields the file reads. \<open>f_mapping_host\<close> is
  \<^verbatim>\<open>filp->f_mapping->host\<close>, \<open>f_dentry_inode\<close> is \<^verbatim>\<open>filp->f_dentry->d_inode\<close>
  (\<^verbatim>\<open>filp->f_path.dentry->d_inode\<close>). The position \<^verbatim>\<open>f_pos\<close> is mutable and
  lives in the state below.
\<close>

record struct_file =
  f_mode :: c_uint
  f_flags :: c_uint
  f_mapping_host :: inode
  f_dentry_inode :: inode

record vm_area_struct =
  vm_start :: c_ulong
  vm_end :: c_ulong
  vm_pgoff :: c_ulong
  vm_flags :: c_ulong

text \<open>
  \<^verbatim>\<open>struct page\<close>: the three flag bits the file manipulates, and
  \<^verbatim>\<open>pp->mapping->host\<close>.
\<close>

record page =
  PG_locked :: bool
  PG_uptodate :: bool
  PG_error :: bool
  pg_mapping_host :: inode

subsection \<open>Calls that leave the file\<close>

text \<open>
  Every call of an engine or host primitive is recorded, with its arguments, in the
  order in which the file makes it; so is the store to \<^verbatim>\<open>zp->z_is_mapped\<close>, with
  the state of \<^verbatim>\<open>zp->z_lock\<close> at the store.
\<close>

datatype page_op =
    SetError | ClearError | SetUptodate | ClearUptodate
  | FlushDcache | Unlock | ListDel | CacheRelease

datatype kcall =
    Crhold cred_t
  | Crfree cred_t
  | Zfs_open inode c_uint c_uint cred_t
  | Generic_file_open inode struct_file
  | Zfs_close inode c_uint cred_t
  | Zfs_readdir inode loff_t cred_t
  | Zfs_fsync inode c_int cred_t
  | Zfs_read inode uio_t c_uint cred_t
  | Zfs_write inode uio_t c_uint cred_t
  | Zfs_map inode c_ulong c_ulong size_t c_ulong
  | Generic_file_mmap struct_file vm_area_struct
  | Mutex_enter_z_lock
  | Store_z_is_mapped bool
  | Mutex_exit_z_lock
  | Kmalloc nat
  | Kfree
  | Zfs_getpage inode "page_ptr list" nat
  | Zfs_putpage page_ptr nat inode
  | Page page_op page_ptr
  | Zfs_getflags inode
  | Copy_to_user user_ptr c_uint nat
  | Copy_from_user user_ptr nat
  | Is_owner_or_cap inode
  | Zfs_setattr
  | Write_cache_pages inode nat

text \<open>
  The results of the primitives. The engine (\<^verbatim>\<open>zfs_*\<close>) returns a status, zero
  or a positive error number, which the file negates; where it writes through a
  pointer argument (the I/O vector, the directory position, the flag word) the new
  value is returned beside the status. \<open>kmalloc_ok n\<close> tells whether the
  allocation of \<open>n\<close> pointers succeeds. \<open>copy_to_user\<close> and \<open>copy_from_user\<close>
  return the number of bytes that could not be copied, \<open>copy_from_user\<close> beside the
  word read. \<^verbatim>\<open>zfs_setattr\<close> is called with no argument (line 464).
  \<open>dirty_pages\<close> is the sequence of dirty pages that the host's
  \<^verbatim>\<open>write_cache_pages\<close> walks.
\<close>

record extern =
  CRED :: cred_t
  zfs_open :: "inode \<Rightarrow> c_uint \<Rightarrow> c_uint \<Rightarrow> cred_t \<Rightarrow> c_int"
  generic_file_open :: "inode \<Rightarrow> struct_file \<Rightarrow> c_int"
  zfs_close :: "inode \<Rightarrow> c_uint \<Rightarrow> cred_t \<Rightarrow> c_int"
  zfs_readdir :: "inode \<Rightarrow> loff_t \<Rightarrow> cred_t \<Rightarrow> c_int \<times> loff_t"
  zfs_fsync :: "inode \<Rightarrow> c_int \<Rightarrow> cred_t \<Rightarrow> c_int"
  zfs_read :: "inode \<Rightarrow> uio_t \<Rightarrow> c_uint \<Rightarrow> cred_t \<Rightarrow> c_int \<times> uio_t"
  zfs_write :: "inode \<Rightarrow> uio_t \<Rightarrow> c_uint \<Rightarrow> cred_t \<Rightarrow> c_int \<times> uio_t"
  zfs_map :: "inode \<Rightarrow> c_ulong \<Rightarrow> c_ulong \<Rightarrow> size_t \<Rightarrow> c_ulong \<Rightarrow> c_int"
  generic_file_mmap :: "struct_file \<Rightarrow> vm_area_struct \<Rightarrow> c_int"
  kmalloc_ok :: "nat \<Rightarrow> bool"
  zfs_getpage :: "inode \<Rightarrow> page_ptr list \<Rightarrow> nat \<Rightarrow> c_int"
  zfs_putpage :: "page_ptr \<Rightarrow> nat \<Rightarrow> inode \<Rightarrow> c_int"
  zfs_getflags :: "inode \<Rightarrow> c_int \<times> uint64_t"
  copy_to_user :: "user_ptr \<Rightarrow> c_uint \<Rightarrow> nat \<Rightarrow> c_ulong"
  copy_from_user :: "user_ptr \<Rightarrow> nat \<Rightarrow> c_ulong \<times> c_uint"
  is_owner_or_cap :: "inode \<Rightarrow> bool"
  zfs_setattr :: "unit \<Rightarrow> c_int"
  dirty_pages :: "inode \<Rightarrow> nat \<Rightarrow> page_ptr list"

subsection \<open>State\<close>

text \<open>
  One file object with one open handle: the position cell that \<^verbatim>\<open>ppos\<close> and
  \<^verbatim>\<open>&filp->f_pos\<close> point to, the \<^verbatim>\<open>z_is_mapped\<close> flag of its znode and the
  mutex \<^verbatim>\<open>z_lock\<close> that guards it, the pages by address, and the calls made so
  far.
\<close>

record kstate =
  f_pos :: loff_t
  z_is_mapped :: bool
  z_lock_held :: bool
  pages :: "page_ptr \<Rightarrow> page"
  klog :: "kcall list"

definition ext :: "kcall \<Rightarrow> kstate \<Rightarrow> kstate" where
  "ext c s = s\<lparr>klog := klog s @ [c]\<rparr>"

subsection \<open>Host primitives on pages and on the mutex\<close>

text \<open>
  Modelled from the spec: the page primitives of \<^verbatim>\<open>linux/page-flags.h\<close> and
  \<^verbatim>\<open>linux/pagemap.h\<close> are not part of the file; the spec takes them as atomic
  primitives on a single page (lock, unlock, mark uptodate, mark error, release).
  Each sets or clears its flag bit and is recorded.
\<close>

definition SetPageError :: "page_ptr \<Rightarrow> kstate \<Rightarrow> kstate" where
  "SetPageError p s =
     ext (Page SetError p) (s\<lparr>pages := (pages s)(p := (pages s p)\<lparr>PG_error := True\<rparr>)\<rparr>)"

definition ClearPageError :: "page_ptr \<Rightarrow> kstate \<Rightarrow> kstate" where
  "ClearPageError p s =
     ext (Page ClearError p) (s\<lparr>pages := (pages s)(p := (pages s p)\<lparr>PG_error := False\<rparr>)\<rparr>)"

definition SetPageUptodate :: "page_ptr \<Rightarrow> kstate \<Rightarrow> kstate" where
  "SetPageUptodate p s =
     ext (Page SetUptodate p) (s\<lparr>pages := (pages s)(p := (pages s p)\<lparr>PG_uptodate := True\<rparr>)\<rparr>)"

definition ClearPageUptodate :: "page_ptr \<Rightarrow> kstate \<Rightarrow> kstate" where
  "ClearPageUptodate p s =
     ext (Page ClearUptodate p)
       (s\<lparr>pages := (pages s)(p := (pages s p)\<lparr>PG_uptodate := False\<rparr>)\<rparr>)"

definition flush_dcache_page :: "page_ptr \<Rightarrow> kstate \<Rightarrow> kstate" where
  "flush_dcache_page p s = ext (Page FlushDcache p) s"

definition unlock_page :: "page_ptr \<Rightarrow> kstate \<Rightarrow> kstate" where
  "unlock_page p s =
     ext (Page Unlock p) (s\<lparr>pages := (pages s)(p := (pages s p)\<lparr>PG_locked := False\<rparr>)\<rparr>)"

definition page_cache_release :: "page_ptr \<Rightarrow> kstate \<Rightarrow> kstate" where
  "page_cache_release p s = ext (Page CacheRelease p) s"

definition PageLocked :: "page_ptr \<Rightarrow> kstate \<Rightarrow> bool" where
  "PageLocked p s = PG_locked (pages s p)"

text \<open>
  \<^verbatim>\<open>mutex_enter\<close> on a mutex that is held does not return in a sequential run:
  the result is \<open>None\<close>.
\<close>

definition mutex_enter_z_lock :: "kstate \<Rightarrow> kstate option" where
  "mutex_enter_z_lock s =
     (if z_lock_held s then None else Some (ext Mutex_enter_z_lock (s\<lparr>z_lock_held := True\<rparr>)))"

definition mutex_exit_z_lock :: "kstate \<Rightarrow> kstate" where
  "mutex_exit_z_lock s = ext Mutex_exit_z_lock (s\<lparr>z_lock_held := False\<rparr>)"

text \<open>
  Modelled from the spec: \<^verbatim>\<open>MAXOFFSET_T\<close> is declared in a header that is not part
  of the file; the spec calls it an unbounded upper limit: the largest \<^verbatim>\<open>loff_t\<close>.
\<close>

definition MAXOFFSET_T :: loff_t where
  "MAXOFFSET_T = 0x7FFFFFFFFFFFFFFF"

section \<open>The functions of the file\<close>

text \<open>
  \<^verbatim>\<open>ASSERT3S(error, <=, 0)\<close> and \<^verbatim>\<open>ASSERT(PageLocked(pp))\<close> panic when they
  fail: the call does not return, and the result is \<open>None\<close>.
\<close>

subsection \<open>Open, release, readdir, fsync (lines 32-109)\<close>

definition zpl_open :: "extern \<Rightarrow> inode \<Rightarrow> struct_file \<Rightarrow> kstate \<Rightarrow> (c_int \<times> kstate) option" where
  "zpl_open X ip filp s =
     (let cr = CRED X;
          s = ext (Crhold cr) s;
          error = - zfs_open X ip (f_mode filp) (f_flags filp) cr;
          s = ext (Zfs_open ip (f_mode filp) (f_flags filp) cr) s;
          s = ext (Crfree cr) s
      in if 0 <s error then None
         else if error \<noteq> 0 then Some (error, s)
         else Some (generic_file_open X ip filp, ext (Generic_file_open ip filp) s))"

definition zpl_release :: "extern \<Rightarrow> inode \<Rightarrow> struct_file \<Rightarrow> kstate \<Rightarrow> (c_int \<times> kstate) option" where
  "zpl_release X ip filp s =
     (let cr = CRED X;
          s = ext (Crhold cr) s;
          error = - zfs_close X ip (f_flags filp) cr;
          s = ext (Zfs_close ip (f_flags filp) cr) s;
          s = ext (Crfree cr) s
      in if 0 <s error then None else Some (error, s))"

definition zpl_readdir :: "extern \<Rightarrow> struct_file \<Rightarrow> kstate \<Rightarrow> (c_int \<times> kstate) option" where
  "zpl_readdir X filp s =
     (let cr = CRED X;
          s = ext (Crhold cr) s;
          (rc, pos) = zfs_readdir X (f_dentry_inode filp) (f_pos s) cr;
          error = - rc;
          s = ext (Zfs_readdir (f_dentry_inode filp) (f_pos s) cr) s;
          s = s\<lparr>f_pos := pos\<rparr>;
          s = ext (Crfree cr) s
      in if 0 <s error then None else Some (error, s))"

definition zpl_fsync :: "extern \<Rightarrow> struct_file \<Rightarrow> c_int \<Rightarrow> kstate \<Rightarrow> (c_int \<times> kstate) option" where
  "zpl_fsync X filp datasync s =
     (let cr = CRED X;
          s = ext (Crhold cr) s;
          error = - zfs_fsync X (f_dentry_inode filp) datasync cr;
          s = ext (Zfs_fsync (f_dentry_inode filp) datasync cr) s;
          s = ext (Crfree cr) s
      in if 0 <s error then None else Some (error, s))"

subsection \<open>Read and write (lines 111-195)\<close>

text \<open>
  \<^verbatim>\<open>return (error)\<close> widens the \<^verbatim>\<open>int\<close> to \<^verbatim>\<open>ssize_t\<close> with its sign
  (\<open>scast\<close>); \<^verbatim>\<open>len - uio.uio_resid\<close> is computed modulo \<open>2 ^ 64\<close>.
\<close>

definition zpl_read_common ::
  "extern \<Rightarrow> inode \<Rightarrow> user_ptr \<Rightarrow> size_t \<Rightarrow> loff_t \<Rightarrow> uio_seg_t \<Rightarrow> c_int \<Rightarrow> cred_t \<Rightarrow> kstate
   \<Rightarrow> ssize_t \<times> kstate" where
  "zpl_read_common X ip buf len pos segment flags cr s =
     (let iov = \<lparr>iov_base = buf, iov_len = len\<rparr>;
          uio = \<lparr>uio_iov = [iov], uio_iovcnt = 1, uio_loffset = pos,
                 uio_limit = MAXOFFSET_T, uio_segflg = segment, uio_resid = len\<rparr>;
          (rc, uio') = zfs_read X ip uio flags cr;
          s = ext (Zfs_read ip uio flags cr) s;
          error = - rc
      in if error <s 0 then (scast error, s)
         else (len - uio_resid uio', s))"

definition zpl_read :: "extern \<Rightarrow> struct_file \<Rightarrow> user_ptr \<Rightarrow> size_t \<Rightarrow> kstate \<Rightarrow> ssize_t \<times> kstate" where
  "zpl_read X filp buf len s =
     (let cr = CRED X;
          s = ext (Crhold cr) s;
          (read, s) = zpl_read_common X (f_mapping_host filp) buf len (f_pos s)
                        UIO_USERSPACE (f_flags filp) cr s;
          s = ext (Crfree cr) s
      in if read <s 0 then (read, s)
         else (read, s\<lparr>f_pos := f_pos s + read\<rparr>))"

definition zpl_write_common ::
  "extern \<Rightarrow> inode \<Rightarrow> user_ptr \<Rightarrow> size_t \<Rightarrow> loff_t \<Rightarrow> uio_seg_t \<Rightarrow> c_int \<Rightarrow> cred_t \<Rightarrow> kstate
   \<Rightarrow> ssize_t \<times> kstate" where
  "zpl_write_common X ip buf len pos segment flags cr s =
     (let iov = \<lparr>iov_base = buf, iov_len = len\<rparr>;
          uio = \<lparr>uio_iov = [iov], uio_iovcnt = 1, uio_loffset = pos,
                 uio_limit = MAXOFFSET_T, uio_segflg = segment, uio_resid = len\<rparr>;
          (rc, uio') = zfs_write X ip uio flags cr;
          s = ext (Zfs_write ip uio flags cr) s;
          error = - rc
      in if error <s 0 then (scast error, s)
         else (len - uio_resid uio', s))"

definition zpl_write :: "extern \<Rightarrow> struct_file \<Rightarrow> user_ptr \<Rightarrow> size_t \<Rightarrow> kstate \<Rightarrow> ssize_t \<times> kstate" where
  "zpl_write X filp buf len s =
     (let cr = CRED X;
          s = ext (Crhold cr) s;
          (wrote, s) = zpl_write_common X (f_mapping_host filp) buf len (f_pos s)
                         UIO_USERSPACE (f_flags filp) cr s;
          s = ext (Crfree cr) s
      in if wrote <s 0 then (wrote, s)
         else (wrote, s\<lparr>f_pos := f_pos s + wrote\<rparr>))"

subsection \<open>Mmap (lines 240-261)\<close>

definition store_z_is_mapped :: "kstate \<Rightarrow> kstate" where
  "store_z_is_mapped s = ext (Store_z_is_mapped (z_lock_held s)) (s\<lparr>z_is_mapped := True\<rparr>)"

definition zpl_mmap :: "extern \<Rightarrow> struct_file \<Rightarrow> vm_area_struct \<Rightarrow> kstate \<Rightarrow> (c_int \<times> kstate) option" where
  "zpl_mmap X filp vma s =
     (let ip = f_mapping_host filp;
          error = - zfs_map X ip (vm_pgoff vma) (vm_start vma)
                      (vm_end vma - vm_start vma) (vm_flags vma);
          s = ext (Zfs_map ip (vm_pgoff vma) (vm_start vma)
                      (vm_end vma - vm_start vma) (vm_flags vma)) s
      in if error \<noteq> 0 then Some (error, s)
         else
           let error = generic_file_mmap X filp vma;
               s = ext (Generic_file_mmap filp vma) s
           in if error \<noteq> 0 then Some (error, s)
              else
                (case mutex_enter_z_lock s of
                   None \<Rightarrow> None
                 | Some s \<Rightarrow>
                     let s = store_z_is_mapped s;
                         s = mutex_exit_z_lock s
                     in Some (error, s)))"

subsection \<open>Populating pages (lines 263-350)\<close>

text \<open>
  The list \<^verbatim>\<open>pages\<close> is walked from its tail, so the vector is the list reversed.
  \<^verbatim>\<open>kmalloc\<close> gives room for \<^verbatim>\<open>nr_pages\<close> pointers of 8 bytes; a list longer than
  that makes the loop store past the end of the vector, and the result is \<open>None\<close>.
  \<open>Inl\<close> is the \<^verbatim>\<open>ERR_PTR\<close>.
\<close>

definition pages_vector_from_list ::
  "extern \<Rightarrow> page_ptr list \<Rightarrow> nat \<Rightarrow> kstate \<Rightarrow> ((c_int + page_ptr list) \<times> kstate) option" where
  "pages_vector_from_list X pagelist nr_pages s =
     (let s = ext (Kmalloc (8 * nr_pages)) s
      in if \<not> kmalloc_ok X (8 * nr_pages) then Some (Inl (- ENOMEM), s)
         else if nr_pages < length pagelist then None
         else Some (Inr (rev pagelist), s))"

text \<open>
  The body of \<^verbatim>\<open>list_for_each_entry_safe_reverse\<close> (lines 302-310), for the entries
  \<open>ps\<close> still to visit, tail first; \<open>pagelist\<close> is what is left of the list.
\<close>

fun readpages_walk :: "page_ptr list \<Rightarrow> page_ptr list \<Rightarrow> kstate \<Rightarrow> page_ptr list \<times> kstate" where
  "readpages_walk [] pagelist s = (pagelist, s)"
| "readpages_walk (p # ps) pagelist s =
     (let pagelist = remove1 p pagelist;
          s = ext (Page ListDel p) s;
          s = flush_dcache_page p s;
          s = SetPageUptodate p s;
          s = unlock_page p s;
          s = page_cache_release p s
      in readpages_walk ps pagelist s)"

definition zpl_readpages ::
  "extern \<Rightarrow> struct_file \<Rightarrow> inode \<Rightarrow> page_ptr list \<Rightarrow> nat \<Rightarrow> kstate
   \<Rightarrow> (c_int \<times> page_ptr list \<times> kstate) option" where
  "zpl_readpages X filp mapping_host pagelist nr_pages s =
     (let ip = mapping_host
      in case pages_vector_from_list X pagelist nr_pages s of
           None \<Rightarrow> None
         | Some (Inl e, s) \<Rightarrow> Some (e, pagelist, s)
         | Some (Inr pl, s) \<Rightarrow>
             let error = - zfs_getpage X ip pl nr_pages;
                 s = ext (Zfs_getpage ip pl nr_pages) s
             in if error \<noteq> 0 then Some (error, pagelist, ext Kfree s)
                else
                  let (pagelist, s) = readpages_walk (rev pagelist) pagelist s
                  in Some (error, pagelist, ext Kfree s))"

definition zpl_readpage :: "extern \<Rightarrow> struct_file \<Rightarrow> page_ptr \<Rightarrow> kstate \<Rightarrow> (c_int \<times> kstate) option" where
  "zpl_readpage X filp pp s =
     (if \<not> PageLocked pp s then None
      else
        let ip = pg_mapping_host (pages s pp);
            pl = [pp];
            error = - zfs_getpage X ip pl 1;
            s = ext (Zfs_getpage ip pl 1) s;
            s = (if error \<noteq> 0
                 then let s = SetPageError pp s in ClearPageUptodate pp s
                 else let s = ClearPageError pp s;
                          s = SetPageUptodate pp s
                      in flush_dcache_page pp s);
            s = unlock_page pp s
        in Some (error, s))"

subsection \<open>Flushing pages (lines 352-388)\<close>

definition zpl_putpage :: "extern \<Rightarrow> page_ptr \<Rightarrow> nat \<Rightarrow> inode \<Rightarrow> kstate \<Rightarrow> c_int \<times> kstate" where
  "zpl_putpage X pp wbc data s =
     (let error = - zfs_putpage X pp wbc data;
          s = ext (Zfs_putpage pp wbc data) s;
          s = (if error \<noteq> 0
               then let s = SetPageError pp s in ClearPageUptodate pp s
               else let s = ClearPageError pp s;
                        s = SetPageUptodate pp s
                    in flush_dcache_page pp s);
          s = unlock_page pp s
      in (error, s))"

text \<open>
  Modelled from the spec: \<^verbatim>\<open>write_cache_pages\<close> is the host's walk over the dirty
  pages of a mapping and is not part of the file; it invokes the single-page flush
  for each page of a finite sequence and stops at the first error.
\<close>

fun write_cache_pages_walk ::
  "(page_ptr \<Rightarrow> kstate \<Rightarrow> c_int \<times> kstate) \<Rightarrow> page_ptr list \<Rightarrow> kstate \<Rightarrow> c_int \<times> kstate" where
  "write_cache_pages_walk writepage [] s = (0, s)"
| "write_cache_pages_walk writepage (p # ps) s =
     (let (error, s) = writepage p s
      in if error \<noteq> 0 then (error, s) else write_cache_pages_walk writepage ps s)"

definition write_cache_pages ::
  "extern \<Rightarrow> inode \<Rightarrow> nat \<Rightarrow> (page_ptr \<Rightarrow> nat \<Rightarrow> inode \<Rightarrow> kstate \<Rightarrow> c_int \<times> kstate) \<Rightarrow> inode
   \<Rightarrow> kstate \<Rightarrow> c_int \<times> kstate" where
  "write_cache_pages X mapping wbc writepage data s =
     write_cache_pages_walk (\<lambda>p. writepage p wbc data) (dirty_pages X mapping wbc)
       (ext (Write_cache_pages mapping wbc) s)"

definition zpl_writepages :: "extern \<Rightarrow> inode \<Rightarrow> nat \<Rightarrow> kstate \<Rightarrow> c_int \<times> kstate" where
  "zpl_writepages X mapping wbc s = write_cache_pages X mapping wbc (zpl_putpage X) mapping s"

definition zpl_writepage :: "extern \<Rightarrow> page_ptr \<Rightarrow> nat \<Rightarrow> kstate \<Rightarrow> c_int \<times> kstate" where
  "zpl_writepage X pp wbc s = zpl_putpage X pp wbc (pg_mapping_host (pages s pp)) s"

subsection \<open>The flag ioctls (lines 426-480)\<close>

text \<open>
  The \<^verbatim>\<open>unsigned long\<close> of \<^verbatim>\<open>copy_to_user\<close> and \<^verbatim>\<open>copy_from_user\<close> is stored in
  the \<^verbatim>\<open>int error\<close> (\<open>ucast\<close> keeps the low 32 bits).
\<close>

definition zpl_ioctl_getflags ::
  "zfs_h \<Rightarrow> extern \<Rightarrow> struct_file \<Rightarrow> user_ptr \<Rightarrow> kstate \<Rightarrow> c_int \<times> kstate" where
  "zpl_ioctl_getflags H X filp arg s =
     (let ip = f_dentry_inode filp;
          (rc, zfs_flags) = zfs_getflags X ip;
          error = - rc;
          s = ext (Zfs_getflags ip) s
      in if error \<noteq> 0 then (error, s)
         else
           let ioctl_flags = zpl_get_ioctl_flags H zfs_flags;
               error = ucast (copy_to_user X arg ioctl_flags 4);
               s = ext (Copy_to_user arg ioctl_flags 4) s
           in (error, s))"

text \<open>
  Line 457 names the argument of \<^verbatim>\<open>is_owner_or_cap\<close> \<^verbatim>\<open>inode\<close>; the function's
  inode is \<^verbatim>\<open>ip\<close>. The right operand of \<^verbatim>\<open>||\<close> is evaluated only when the left
  one is false. Line 464 calls \<^verbatim>\<open>zfs_setattr()\<close> with no argument.
\<close>

definition zpl_ioctl_setflags ::
  "extern \<Rightarrow> struct_file \<Rightarrow> user_ptr \<Rightarrow> kstate \<Rightarrow> c_int \<times> kstate" where
  "zpl_ioctl_setflags X filp arg s =
     (let ip = f_dentry_inode filp;
          (left, flags) = copy_from_user X arg 4;
          error = ucast left;
          s = ext (Copy_from_user arg 4) s
      in if error \<noteq> 0 then (error, s)
         else if flags AND NOT FS_FL_USER_MODIFIABLE \<noteq> 0 then (- EACCES, s)
         else
           let owner = is_owner_or_cap X ip;
               s = ext (Is_owner_or_cap ip) s
           in if \<not> owner then (- EACCES, s)
              else if flags AND NOT (FS_IMMUTABLE_FL OR FS_APPEND_FL OR FS_NODUMP_FL OR
                                     FS_DIRSYNC_FL OR FS_SYNC_FL OR FS_NOATIME_FL) \<noteq> 0
              then (- EOPNOTSUPP, s)
              else
                let error = - zfs_setattr X ();
                    s = ext Zfs_setattr s
                in (error, s))"

definition zpl_ioctl ::
  "zfs_h \<Rightarrow> extern \<Rightarrow> struct_file \<Rightarrow> c_uint \<Rightarrow> c_ulong \<Rightarrow> kstate \<Rightarrow> c_long \<times> kstate" where
  "zpl_ioctl H X filp cmd arg s =
     (if cmd = ZFS_IOC_GETFLAGS H
      then let (r, s) = zpl_ioctl_getflags H X filp arg s in (scast r, s)
      else if cmd = ZFS_IOC_SETFLAGS H
      then let (r, s) = zpl_ioctl_setflags X filp arg s in (scast r, s)
      else (scast (- ENOTTY), s))"

subsection \<open>The operation tables (lines 482-507)\<close>

text \<open>
  The entries of \<^verbatim>\<open>zpl_address_space_operations\<close>, \<^verbatim>\<open>zpl_file_operations\<close> and
  \<^verbatim>\<open>zpl_dir_file_operations\<close> that are functions of the file, with their arguments.
\<close>

datatype zpl_op =
    Op_readpages struct_file inode "page_ptr list" nat
  | Op_readpage struct_file page_ptr
  | Op_writepage page_ptr nat
  | Op_writepages inode nat
  | Op_open inode struct_file
  | Op_release inode struct_file
  | Op_read struct_file user_ptr size_t
  | Op_write struct_file user_ptr size_t
  | Op_readdir struct_file
  | Op_mmap struct_file vm_area_struct
  | Op_fsync struct_file c_int
  | Op_ioctl struct_file c_uint c_ulong

text \<open>The state in which an operation returns; \<open>None\<close> when it does not return.\<close>

fun zpl_operation :: "zfs_h \<Rightarrow> extern \<Rightarrow> zpl_op \<Rightarrow> kstate \<Rightarrow> kstate option" where
  "zpl_operation H X (Op_readpages filp mapping pagelist nr_pages) s =
     map_option (\<lambda>(r, l, s). s) (zpl_readpages X filp mapping pagelist nr_pages s)"
| "zpl_operation H X (Op_readpage filp pp) s = map_option snd (zpl_readpage X filp pp s)"
| "zpl_operation H X (Op_writepage pp wbc) s = Some (snd (zpl_writepage X pp wbc s))"
| "zpl_operation H X (Op_writepages mapping wbc) s = Some (snd (zpl_writepages X mapping wbc s))"
| "zpl_operation H X (Op_open ip filp) s = map_option snd (zpl_open X ip filp s)"
| "zpl_operation H X (Op_release ip filp) s = map_option snd (zpl_release X ip filp s)"
| "zpl_operation H X (Op_read filp buf len) s = Some (snd (zpl_read X filp buf len s))"
| "zpl_operation H X (Op_write filp buf len) s = Some (snd (zpl_write X filp buf len s))"
| "zpl_operation H X (Op_readdir filp) s = map_option snd (zpl_readdir X filp s)"
| "zpl_operation H X (Op_mmap filp vma) s = map_option snd (zpl_mmap X filp vma s)"
| "zpl_operation H X (Op_fsync filp datasync) s = map_option snd (zpl_fsync X filp datasync s)"
| "zpl_operation H X (Op_ioctl filp cmd arg) s = Some (snd (zpl_ioctl H X filp cmd arg s))"

section \<open>Observing a call\<close>

text \<open>The calls made between two states, in order.\<close>

definition calls_since :: "kstate \<Rightarrow> kstate \<Rightarrow> kcall list" where
  "calls_since s s' = drop (length (klog s)) (klog s')"

text \<open>The I/O vector of a transfer request, as lines 119-127 and 162-170 fill it.\<close>

definition transfer_uio :: "user_ptr \<Rightarrow> size_t \<Rightarrow> loff_t \<Rightarrow> uio_seg_t \<Rightarrow> uio_t" where
  "transfer_uio buf len pos segment =
     \<lparr>uio_iov = [\<lparr>iov_base = buf, iov_len = len\<rparr>], uio_iovcnt = 1, uio_loffset = pos,
      uio_limit = MAXOFFSET_T, uio_segflg = segment, uio_resid = len\<rparr>"

text \<open>
  A sequence of operations, each with the engine and host it meets; \<open>None\<close> when one
  of them does not return.
\<close>

fun zpl_run :: "zfs_h \<Rightarrow> (extern \<times> zpl_op) list \<Rightarrow> kstate \<Rightarrow> kstate option" where
  "zpl_run H [] s = Some s"
| "zpl_run H ((X, op) # rest) s =
     (case zpl_operation H X op s of None \<Rightarrow> None | Some s' \<Rightarrow> zpl_run H rest s')"

subsection \<open>Sample inputs\<close>

text \<open>
  An engine and host in which every call succeeds: reads and writes move at most
  1000 bytes, the file has the immutable attribute, the caller owns it and asks for
  \<^verbatim>\<open>FS_IMMUTABLE_FL\<close>. Failing engines are record updates of it.
\<close>

definition sample_extern :: extern where
  "sample_extern =
     \<lparr> CRED = 0,
       zfs_open = (\<lambda>ip mode flags cr. 0),
       generic_file_open = (\<lambda>ip filp. 0),
       zfs_close = (\<lambda>ip flags cr. 0),
       zfs_readdir = (\<lambda>ip pos cr. (0, pos)),
       zfs_fsync = (\<lambda>ip datasync cr. 0),
       zfs_read = (\<lambda>ip uio flags cr.
                     (0, uio\<lparr>uio_resid := uio_resid uio - min (uio_resid uio) 1000\<rparr>)),
       zfs_write = (\<lambda>ip uio flags cr.
                      (0, uio\<lparr>uio_resid := uio_resid uio - min (uio_resid uio) 1000\<rparr>)),
       zfs_map = (\<lambda>ip off addr len flags. 0),
       generic_file_mmap = (\<lambda>filp vma. 0),
       kmalloc_ok = (\<lambda>n. True),
       zfs_getpage = (\<lambda>ip pl n. 0),
       zfs_putpage = (\<lambda>pp wbc data. 0),
       zfs_getflags = (\<lambda>ip. (0, 0x0000001000000000)),
       copy_to_user = (\<lambda>to v n. 0),
       copy_from_user = (\<lambda>from n. (0, 0x00000010)),
       is_owner_or_cap = (\<lambda>ip. True),
       zfs_setattr = (\<lambda>u. 0),
       dirty_pages = (\<lambda>mapping wbc. []) \<rparr>"

definition sample_file :: struct_file where
  "sample_file = \<lparr> f_mode = 3, f_flags = 2, f_mapping_host = 1, f_dentry_inode = 1 \<rparr>"

definition sample_vma :: vm_area_struct where
  "sample_vma = \<lparr> vm_start = 0x1000, vm_end = 0x3000, vm_pgoff = 0, vm_flags = 3 \<rparr>"

text \<open>Position 0, not mapped, the mutex free, every page locked and not yet filled.\<close>

definition sample_kstate :: kstate where
  "sample_kstate =
     \<lparr> f_pos = 0, z_is_mapped = False, z_lock_held = False,
       pages = (\<lambda>p. \<lparr>PG_locked = True, PG_uptodate = False, PG_error = False,
                      pg_mapping_host = 1\<rparr>),
       klog = [] \<rparr>"

section \<open>Properties\<close>

lemmas fs_flag_defs =
  FS_SYNC_FL_def FS_IMMUTABLE_FL_def FS_APPEND_FL_def FS_NODUMP_FL_def
  FS_NOATIME_FL_def FS_DIRSYNC_FL_def FS_FL_USER_VISIBLE_def FS_FL_USER_MODIFIABLE_def

lemmas page_prim_defs =
  SetPageError_def ClearPageError_def SetPageUptodate_def ClearPageUptodate_def
  flush_dcache_page_def unlock_page_def page_cache_release_def ext_def

lemmas sample_defs = sample_extern_def sample_file_def sample_kstate_def sample_zfs_h_def

subsection \<open>Status codes and byte counts\<close>

lemma sint_scast_int_ssize: "sint (scast (e :: c_int) :: ssize_t) = sint e"
  by (simp add: sint_up_scast is_up)

lemma sint_neg_status:
  assumes "0 <s (rc :: c_int)"
  shows "sint (- rc) = - sint rc"
proof -
  have pos: "0 < sint rc" using assms by (simp add: word_sless_alt)
  have ub: "sint rc < 2 ^ 31" using sint_lt [of rc] by simp
  have "sint (- rc) = signed_take_bit 31 (- sint rc)"
    by (simp add: sint_word_ariths)
  also have "\<dots> = - sint rc"
    using pos ub by (intro signed_take_bit_int_eq_self) auto
  finally show ?thesis .
qed

lemma neg_status_sless: "0 <s (rc :: c_int) \<Longrightarrow> - rc <s 0"
  using sint_neg_status [of rc] by (simp add: word_sless_alt)

lemma scast_neg_status:
  "0 <s (rc :: c_int) \<Longrightarrow>
     (scast (- rc) :: ssize_t) <s 0 \<and> sint (scast (- rc) :: ssize_t) = - sint rc"
  using sint_neg_status [of rc] by (simp add: word_sless_alt sint_scast_int_ssize)

lemma sint_short_count:
  assumes "(resid :: 64 word) \<le> len" and "uint len < 2 ^ 63"
  shows "sint (len - resid) = uint len - uint resid"
proof -
  have u: "uint (len - resid) = uint len - uint resid"
    using assms(1) by (simp add: uint_minus_simple_alt)
  have le: "uint resid \<le> uint len"
    using assms(1) by (simp add: word_le_def)
  have r: "0 \<le> uint len - uint resid" "uint len - uint resid < 2 ^ 63"
    using le assms(2) uint_ge_0 [of resid] by linarith+
  have "sint (len - resid) = signed_take_bit 63 (uint (len - resid))"
    by (simp add: sint_uint)
  also have "\<dots> = uint len - uint resid"
    unfolding u using r by (intro signed_take_bit_int_eq_self) auto
  finally show ?thesis .
qed

lemma sint_advance:
  assumes "\<not> (r :: 64 word) <s 0" and "sint pos + sint r < 2 ^ 63"
  shows "sint (pos + r) = sint pos + sint r"
proof -
  have "0 \<le> sint r" using assms(1) by (simp add: word_sless_alt)
  moreover have "- (2 ^ 63) \<le> sint pos" using sint_ge [of pos] by simp
  ultimately have lo: "- (2 ^ 63) \<le> sint pos + sint r" by linarith
  have "sint (pos + r) = signed_take_bit 63 (sint pos + sint r)"
    by (simp add: sint_word_ariths)
  also have "\<dots> = sint pos + sint r"
    using lo assms(2) by (intro signed_take_bit_int_eq_self) auto
  finally show ?thesis .
qed

lemma MAXOFFSET_T_unbounded: "off <=s MAXOFFSET_T"
  using sint_lt [of off] by (simp add: word_sle_eq MAXOFFSET_T_def)

lemma small_count:
  "(left :: 64 word) \<le> 4 \<Longrightarrow> left = 0 \<or> left = 1 \<or> left = 2 \<or> left = 3 \<or> left = 4"
  by unat_arith

lemma transfer_count:
  fixes rc :: c_int and len resid :: "64 word"
  assumes r_def: "r = (if - rc <s 0 then scast (- rc) else len - resid)"
  shows "(0 <s rc \<longrightarrow> r = scast (- rc) \<and> sint r = - sint rc \<and> r <s 0) \<and>
         (rc = 0 \<longrightarrow> r = len - resid) \<and>
         (rc = 0 \<and> resid \<le> len \<and> uint len < 2 ^ 63 \<longrightarrow>
            sint r = uint len - uint resid \<and> \<not> r <s 0)"
proof (intro conjI impI)
  assume "0 <s rc"
  then show "r = scast (- rc)" "sint r = - sint rc" "r <s 0"
    using scast_neg_status [of rc] neg_status_sless [of rc] by (simp_all add: r_def)
next
  assume "rc = 0" then show "r = len - resid" by (simp add: r_def)
next
  assume a: "rc = 0 \<and> resid \<le> len \<and> uint len < 2 ^ 63"
  then have r: "r = len - resid" by (simp add: r_def)
  from a show "sint r = uint len - uint resid"
    unfolding r by (simp add: sint_short_count)
  from a have "sint r = uint len - uint resid" "uint resid \<le> uint len"
    unfolding r by (simp_all add: sint_short_count word_le_def)
  then show "\<not> r <s 0" by (simp add: word_sless_alt)
qed

subsection \<open>Single pages\<close>

text \<open>
  C1. \<^verbatim>\<open>zpl_readpage\<close>, entered with the page locked (its assertion), and
  \<^verbatim>\<open>zpl_putpage\<close> return the negated engine status, whatever it is, and unlock the
  page exactly once; the unlock is the last call. When the engine succeeds the calls
  before it are: clear the error state, mark the page uptodate, flush the data cache;
  the page is left uptodate and without error. When the engine fails they are: mark
  the page error, clear uptodate; the page is left in error and not uptodate.
\<close>

theorem zpl_readpage_putpage_single_unlock:
  "(PageLocked pp s \<longrightarrow>
      (\<exists>s'. zpl_readpage X filp pp s =
               Some (- zfs_getpage X (pg_mapping_host (pages s pp)) [pp] 1, s') \<and>
            count_list (calls_since s s') (Page Unlock pp) = 1 \<and>
            \<not> PG_locked (pages s' pp) \<and>
            (if zfs_getpage X (pg_mapping_host (pages s pp)) [pp] 1 = 0
             then calls_since s s' =
                    [Zfs_getpage (pg_mapping_host (pages s pp)) [pp] 1,
                     Page ClearError pp, Page SetUptodate pp, Page FlushDcache pp,
                     Page Unlock pp] \<and>
                  PG_uptodate (pages s' pp) \<and> \<not> PG_error (pages s' pp)
             else calls_since s s' =
                    [Zfs_getpage (pg_mapping_host (pages s pp)) [pp] 1,
                     Page SetError pp, Page ClearUptodate pp, Page Unlock pp] \<and>
                  PG_error (pages s' pp) \<and> \<not> PG_uptodate (pages s' pp)))) \<and>
   (\<exists>s'. zpl_putpage X pp wbc data s = (- zfs_putpage X pp wbc data, s') \<and>
         count_list (calls_since s s') (Page Unlock pp) = 1 \<and>
         \<not> PG_locked (pages s' pp) \<and>
         (if zfs_putpage X pp wbc data = 0
          then calls_since s s' =
                 [Zfs_putpage pp wbc data,
                  Page ClearError pp, Page SetUptodate pp, Page FlushDcache pp,
                  Page Unlock pp] \<and>
               PG_uptodate (pages s' pp) \<and> \<not> PG_error (pages s' pp)
          else calls_since s s' =
                 [Zfs_putpage pp wbc data,
                  Page SetError pp, Page ClearUptodate pp, Page Unlock pp] \<and>
               PG_error (pages s' pp) \<and> \<not> PG_uptodate (pages s' pp)))"
  by (simp add: zpl_readpage_def zpl_putpage_def page_prim_defs calls_since_def Let_def)

theorem zpl_readpage_putpage_single_unlock_witness:
  "PageLocked 7 sample_kstate \<and>
   zpl_readpage sample_extern sample_file 7 sample_kstate =
     Some (0, sample_kstate
       \<lparr>pages := (pages sample_kstate)
           (7 := \<lparr>PG_locked = False, PG_uptodate = True, PG_error = False,
                  pg_mapping_host = 1\<rparr>),
        klog := [Zfs_getpage 1 [7] 1, Page ClearError 7, Page SetUptodate 7,
                 Page FlushDcache 7, Page Unlock 7]\<rparr>) \<and>
   zpl_readpage (sample_extern\<lparr>zfs_getpage := (\<lambda>ip pl n. 5)\<rparr>) sample_file 7 sample_kstate =
     Some (- 5, sample_kstate
       \<lparr>pages := (pages sample_kstate)
           (7 := \<lparr>PG_locked = False, PG_uptodate = False, PG_error = True,
                  pg_mapping_host = 1\<rparr>),
        klog := [Zfs_getpage 1 [7] 1, Page SetError 7, Page ClearUptodate 7,
                 Page Unlock 7]\<rparr>) \<and>
   zpl_putpage (sample_extern\<lparr>zfs_putpage := (\<lambda>pp wbc data. 5)\<rparr>) 7 0 1 sample_kstate =
     (- 5, sample_kstate
       \<lparr>pages := (pages sample_kstate)
           (7 := \<lparr>PG_locked = False, PG_uptodate = False, PG_error = True,
                  pg_mapping_host = 1\<rparr>),
        klog := [Zfs_putpage 7 0 1, Page SetError 7, Page ClearUptodate 7,
                 Page Unlock 7]\<rparr>)"
  using zpl_readpage_putpage_single_unlock
      [where pp = 7 and s = sample_kstate and X = sample_extern and filp = sample_file
         and wbc = 0 and data = 1]
    zpl_readpage_putpage_single_unlock
      [where pp = 7 and s = sample_kstate
         and X = "sample_extern\<lparr>zfs_getpage := (\<lambda>ip pl n. 5)\<rparr>" and filp = sample_file
         and wbc = 0 and data = 1]
    zpl_readpage_putpage_single_unlock
      [where pp = 7 and s = sample_kstate
         and X = "sample_extern\<lparr>zfs_putpage := (\<lambda>pp wbc data. 5)\<rparr>" and filp = sample_file
         and wbc = 0 and data = 1]
  by (simp add: zpl_readpage_def zpl_putpage_def page_prim_defs PageLocked_def sample_defs Let_def)

subsection \<open>Batches of pages\<close>

text \<open>
  C2. \<^verbatim>\<open>zpl_readpages\<close> on a non-empty list that fits the vector, when the
  allocation succeeds and the one call of \<^verbatim>\<open>zfs_getpage\<close> for the whole batch
  fails: the call returns the negated engine status, the list is returned as it
  came, the only calls are the allocation, the engine call and the release of the
  vector, no page primitive is called on any page of the list, and every page has
  the flags it had on entry (locked stays locked, nothing is marked).
\<close>

theorem zpl_readpages_batch_failure:
  assumes "pagelist \<noteq> []"
    and "length pagelist \<le> nr_pages"
    and "kmalloc_ok X (8 * nr_pages)"
    and "zfs_getpage X ip (rev pagelist) nr_pages \<noteq> 0"
  shows "\<exists>s'. zpl_readpages X filp ip pagelist nr_pages s =
                 Some (- zfs_getpage X ip (rev pagelist) nr_pages, pagelist, s') \<and>
              calls_since s s' =
                 [Kmalloc (8 * nr_pages), Zfs_getpage ip (rev pagelist) nr_pages, Kfree] \<and>
              pages s' = pages s \<and>
              (\<forall>p \<in> set pagelist. \<forall>op. Page op p \<notin> set (calls_since s s')) \<and>
              (\<forall>p \<in> set pagelist.
                 PG_locked (pages s' p) = PG_locked (pages s p) \<and>
                 PG_uptodate (pages s' p) = PG_uptodate (pages s p) \<and>
                 PG_error (pages s' p) = PG_error (pages s p))"
  using assms
  by (simp add: zpl_readpages_def pages_vector_from_list_def ext_def calls_since_def Let_def)

theorem zpl_readpages_batch_failure_witness:
  "[1, 2] \<noteq> ([] :: page_ptr list) \<and> length [1, 2 :: page_ptr] \<le> 2 \<and>
   kmalloc_ok (sample_extern\<lparr>zfs_getpage := (\<lambda>ip pl n. 5)\<rparr>) (8 * 2) \<and>
   zfs_getpage (sample_extern\<lparr>zfs_getpage := (\<lambda>ip pl n. 5)\<rparr>) 1 (rev [1, 2]) 2 \<noteq> 0 \<and>
   zpl_readpages (sample_extern\<lparr>zfs_getpage := (\<lambda>ip pl n. 5)\<rparr>) sample_file 1 [1, 2] 2
       sample_kstate =
     Some (- 5, [1, 2], sample_kstate\<lparr>klog := [Kmalloc 16, Zfs_getpage 1 [2, 1] 2, Kfree]\<rparr>) \<and>
   PG_locked (pages sample_kstate 1) \<and> PG_locked (pages sample_kstate 2)"
  using zpl_readpages_batch_failure
    [where pagelist = "[1, 2]" and nr_pages = 2
       and X = "sample_extern\<lparr>zfs_getpage := (\<lambda>ip pl n. 5)\<rparr>" and ip = 1
       and filp = sample_file and s = sample_kstate]
  by (simp add: zpl_readpages_def pages_vector_from_list_def ext_def sample_defs Let_def)

subsection \<open>Transfers\<close>

lemma zpl_read_common_result:
  assumes "zfs_read X ip (transfer_uio buf len pos segment) flags cr = (rc, uio')"
  shows "zpl_read_common X ip buf len pos segment flags cr s =
           (if - rc <s 0 then scast (- rc) else len - uio_resid uio',
            ext (Zfs_read ip (transfer_uio buf len pos segment) flags cr) s)"
  using assms by (simp add: zpl_read_common_def transfer_uio_def Let_def)

lemma zpl_write_common_result:
  assumes "zfs_write X ip (transfer_uio buf len pos segment) flags cr = (rc, uio')"
  shows "zpl_write_common X ip buf len pos segment flags cr s =
           (if - rc <s 0 then scast (- rc) else len - uio_resid uio',
            ext (Zfs_write ip (transfer_uio buf len pos segment) flags cr) s)"
  using assms by (simp add: zpl_write_common_def transfer_uio_def Let_def)

lemma transfer_uio_fields:
  "uio_iov (transfer_uio buf len pos segment) = [\<lparr>iov_base = buf, iov_len = len\<rparr>] \<and>
   uio_iovcnt (transfer_uio buf len pos segment) = 1 \<and>
   uio_resid (transfer_uio buf len pos segment) = len \<and>
   uio_loffset (transfer_uio buf len pos segment) = pos \<and>
   uio_segflg (transfer_uio buf len pos segment) = segment \<and>
   (\<forall>off. off <=s uio_limit (transfer_uio buf len pos segment))"
  by (simp add: transfer_uio_def MAXOFFSET_T_unbounded)

lemma calls_since_ext: "calls_since s (ext c s) = [c]"
  by (simp add: calls_since_def ext_def)

text \<open>
  C3. \<^verbatim>\<open>zpl_read_common\<close> and \<^verbatim>\<open>zpl_write_common\<close> make one call of the
  engine, with one I/O vector: a single \<^verbatim>\<open>iovec\<close> of the buffer and the length,
  count 1, the residual set to the length, the offset as given, and a limit that no
  offset exceeds. When the engine reports an error number (a positive status) the
  result is that number negated, widened to \<^verbatim>\<open>ssize_t\<close>, and no byte count is
  computed. When the engine reports success the result is the length minus the
  residual the engine left; with a residual of at most the length (and a length that
  fits \<^verbatim>\<open>ssize_t\<close>) this is the number of bytes moved, possibly less than the
  length, and it is not negative.
\<close>

theorem zpl_common_transfer:
  "(\<exists>uio rc uio' r s'.
      zpl_read_common X ip buf len pos segment flags cr s = (r, s') \<and>
      calls_since s s' = [Zfs_read ip uio flags cr] \<and>
      uio_iov uio = [\<lparr>iov_base = buf, iov_len = len\<rparr>] \<and> uio_iovcnt uio = 1 \<and>
      uio_resid uio = len \<and> uio_loffset uio = pos \<and> uio_segflg uio = segment \<and>
      (\<forall>off. off <=s uio_limit uio) \<and>
      zfs_read X ip uio flags cr = (rc, uio') \<and>
      (0 <s rc \<longrightarrow> r = scast (- rc) \<and> sint r = - sint rc \<and> r <s 0) \<and>
      (rc = 0 \<longrightarrow> r = len - uio_resid uio') \<and>
      (rc = 0 \<and> uio_resid uio' \<le> len \<and> uint len < 2 ^ 63 \<longrightarrow>
         sint r = uint len - uint (uio_resid uio') \<and> \<not> r <s 0)) \<and>
   (\<exists>uio rc uio' r s'.
      zpl_write_common X ip buf len pos segment flags cr s = (r, s') \<and>
      calls_since s s' = [Zfs_write ip uio flags cr] \<and>
      uio_iov uio = [\<lparr>iov_base = buf, iov_len = len\<rparr>] \<and> uio_iovcnt uio = 1 \<and>
      uio_resid uio = len \<and> uio_loffset uio = pos \<and> uio_segflg uio = segment \<and>
      (\<forall>off. off <=s uio_limit uio) \<and>
      zfs_write X ip uio flags cr = (rc, uio') \<and>
      (0 <s rc \<longrightarrow> r = scast (- rc) \<and> sint r = - sint rc \<and> r <s 0) \<and>
      (rc = 0 \<longrightarrow> r = len - uio_resid uio') \<and>
      (rc = 0 \<and> uio_resid uio' \<le> len \<and> uint len < 2 ^ 63 \<longrightarrow>
         sint r = uint len - uint (uio_resid uio') \<and> \<not> r <s 0))"
proof (rule conjI)
  let ?u = "transfer_uio buf len pos segment"
  obtain rc uio' where e: "zfs_read X ip ?u flags cr = (rc, uio')"
    by (cases "zfs_read X ip ?u flags cr")
  define r where "r = (if - rc <s 0 then scast (- rc) else len - uio_resid uio')"
  have res: "zpl_read_common X ip buf len pos segment flags cr s =
               (r, ext (Zfs_read ip ?u flags cr) s)"
    using zpl_read_common_result [OF e] by (simp add: r_def)
  show "\<exists>uio rc uio' r s'.
      zpl_read_common X ip buf len pos segment flags cr s = (r, s') \<and>
      calls_since s s' = [Zfs_read ip uio flags cr] \<and>
      uio_iov uio = [\<lparr>iov_base = buf, iov_len = len\<rparr>] \<and> uio_iovcnt uio = 1 \<and>
      uio_resid uio = len \<and> uio_loffset uio = pos \<and> uio_segflg uio = segment \<and>
      (\<forall>off. off <=s uio_limit uio) \<and>
      zfs_read X ip uio flags cr = (rc, uio') \<and>
      (0 <s rc \<longrightarrow> r = scast (- rc) \<and> sint r = - sint rc \<and> r <s 0) \<and>
      (rc = 0 \<longrightarrow> r = len - uio_resid uio') \<and>
      (rc = 0 \<and> uio_resid uio' \<le> len \<and> uint len < 2 ^ 63 \<longrightarrow>
         sint r = uint len - uint (uio_resid uio') \<and> \<not> r <s 0)"
    using res e calls_since_ext [of s "Zfs_read ip ?u flags cr"]
      transfer_uio_fields [of buf len pos segment] transfer_count [OF r_def]
    by blast
next
  let ?u = "transfer_uio buf len pos segment"
  obtain rc uio' where e: "zfs_write X ip ?u flags cr = (rc, uio')"
    by (cases "zfs_write X ip ?u flags cr")
  define r where "r = (if - rc <s 0 then scast (- rc) else len - uio_resid uio')"
  have res: "zpl_write_common X ip buf len pos segment flags cr s =
               (r, ext (Zfs_write ip ?u flags cr) s)"
    using zpl_write_common_result [OF e] by (simp add: r_def)
  show "\<exists>uio rc uio' r s'.
      zpl_write_common X ip buf len pos segment flags cr s = (r, s') \<and>
      calls_since s s' = [Zfs_write ip uio flags cr] \<and>
      uio_iov uio = [\<lparr>iov_base = buf, iov_len = len\<rparr>] \<and> uio_iovcnt uio = 1 \<and>
      uio_resid uio = len \<and> uio_loffset uio = pos \<and> uio_segflg uio = segment \<and>
      (\<forall>off. off <=s uio_limit uio) \<and>
      zfs_write X ip uio flags cr = (rc, uio') \<and>
      (0 <s rc \<longrightarrow> r = scast (- rc) \<and> sint r = - sint rc \<and> r <s 0) \<and>
      (rc = 0 \<longrightarrow> r = len - uio_resid uio') \<and>
      (rc = 0 \<and> uio_resid uio' \<le> len \<and> uint len < 2 ^ 63 \<longrightarrow>
         sint r = uint len - uint (uio_resid uio') \<and> \<not> r <s 0)"
    using res e calls_since_ext [of s "Zfs_write ip ?u flags cr"]
      transfer_uio_fields [of buf len pos segment] transfer_count [OF r_def]
    by blast
qed

theorem zpl_common_transfer_witness:
  "zpl_read_common sample_extern 1 0 4096 0 UIO_USERSPACE 0 0 sample_kstate =
     (1000, sample_kstate\<lparr>klog :=
        [Zfs_read 1 \<lparr>uio_iov = [\<lparr>iov_base = 0, iov_len = 4096\<rparr>], uio_iovcnt = 1,
           uio_loffset = 0, uio_limit = MAXOFFSET_T, uio_segflg = UIO_USERSPACE,
           uio_resid = 4096\<rparr> 0 0]\<rparr>) \<and>
   zpl_write_common (sample_extern\<lparr>zfs_write := (\<lambda>ip uio flags cr. (28, uio))\<rparr>)
       1 0 4096 0 UIO_USERSPACE 0 0 sample_kstate =
     (- 28, sample_kstate\<lparr>klog :=
        [Zfs_write 1 \<lparr>uio_iov = [\<lparr>iov_base = 0, iov_len = 4096\<rparr>], uio_iovcnt = 1,
           uio_loffset = 0, uio_limit = MAXOFFSET_T, uio_segflg = UIO_USERSPACE,
           uio_resid = 4096\<rparr> 0 0]\<rparr>)"
  using zpl_common_transfer
      [where X = sample_extern and ip = 1 and buf = 0 and len = 4096 and pos = 0
         and segment = UIO_USERSPACE and flags = 0 and cr = 0 and s = sample_kstate]
    zpl_common_transfer
      [where X = "sample_extern\<lparr>zfs_write := (\<lambda>ip uio flags cr. (28, uio))\<rparr>"
         and ip = 1 and buf = 0 and len = 4096 and pos = 0
         and segment = UIO_USERSPACE and flags = 0 and cr = 0 and s = sample_kstate]
  by (simp add: zpl_read_common_def zpl_write_common_def ext_def sample_defs Let_def
      word_sless_alt)

lemma zpl_read_result:
  assumes "zfs_read X (f_mapping_host filp) (transfer_uio buf len (f_pos s) UIO_USERSPACE)
             (f_flags filp) (CRED X) = (rc, uio')"
    and "r = (if - rc <s 0 then scast (- rc) else len - uio_resid uio')"
  shows "\<exists>s'. zpl_read X filp buf len s = (r, s') \<and>
              f_pos s' = (if r <s 0 then f_pos s else f_pos s + r) \<and>
              r = fst (zpl_read_common X (f_mapping_host filp) buf len (f_pos s) UIO_USERSPACE
                         (f_flags filp) (CRED X) (ext (Crhold (CRED X)) s)) \<and>
              calls_since s s' =
                [Crhold (CRED X),
                 Zfs_read (f_mapping_host filp) (transfer_uio buf len (f_pos s) UIO_USERSPACE)
                   (f_flags filp) (CRED X),
                 Crfree (CRED X)]"
  using assms
  by (simp add: zpl_read_def zpl_read_common_result ext_def calls_since_def Let_def)

lemma zpl_write_result:
  assumes "zfs_write X (f_mapping_host filp) (transfer_uio buf len (f_pos s) UIO_USERSPACE)
             (f_flags filp) (CRED X) = (rc, uio')"
    and "r = (if - rc <s 0 then scast (- rc) else len - uio_resid uio')"
  shows "\<exists>s'. zpl_write X filp buf len s = (r, s') \<and>
              f_pos s' = (if r <s 0 then f_pos s else f_pos s + r) \<and>
              r = fst (zpl_write_common X (f_mapping_host filp) buf len (f_pos s) UIO_USERSPACE
                         (f_flags filp) (CRED X) (ext (Crhold (CRED X)) s)) \<and>
              calls_since s s' =
                [Crhold (CRED X),
                 Zfs_write (f_mapping_host filp) (transfer_uio buf len (f_pos s) UIO_USERSPACE)
                   (f_flags filp) (CRED X),
                 Crfree (CRED X)]"
  using assms
  by (simp add: zpl_write_def zpl_write_common_result ext_def calls_since_def Let_def)

lemma position_facts:
  fixes rc :: c_int and len :: "64 word"
  assumes r: "r = (if - rc <s 0 then scast (- rc) else len - resid)"
    and p: "p' = (if r <s 0 then p else p + r)"
  shows "(r <s 0 \<longrightarrow> p' = p) \<and>
     (\<not> r <s 0 \<longrightarrow> p' = p + r \<and>
        (sint p + sint r < 2 ^ 63 \<longrightarrow> sint p' = sint p + sint r)) \<and>
     (0 <s rc \<longrightarrow> r <s 0 \<and> p' = p) \<and>
     (len = 4096 \<and> rc = 0 \<and> resid = 4096 - 1000 \<longrightarrow> r = 1000 \<and> p' = p + 1000)"
proof (intro conjI impI)
  assume "0 <s rc"
  then have "r <s 0" using r transfer_count [OF r] by blast
  then show "r <s 0" "p' = p" using p by simp_all
next
  assume "len = 4096 \<and> rc = 0 \<and> resid = 4096 - 1000"
  then have "r = 1000" using r by simp
  moreover have "\<not> (1000 :: 64 word) <s 0" by (simp add: word_sless_alt)
  ultimately show "r = 1000" "p' = p + 1000" using p by simp_all
qed (use p in \<open>simp_all add: sint_advance\<close>)

text \<open>
  C4. \<^verbatim>\<open>zpl_read\<close> and \<^verbatim>\<open>zpl_write\<close> pass the current position to the transfer
  (one engine call, between taking and dropping the credential) and return the
  transfer's count: the negated engine error, or the length minus the residual the
  engine left. When that count is negative (an error) the position is as it was;
  when it is not, the new position is the old one plus that count (as numbers too,
  unless the sum leaves \<^verbatim>\<open>loff_t\<close>), never the requested length. An engine error
  gives a negative result, hence no advance. A request for 4096 bytes of which the
  engine leaves 4096 - 1000 unmoved returns 1000 and advances the position by 1000.
\<close>

theorem zpl_read_write_position:
  "(\<exists>r s' rc uio'.
      zpl_read X filp buf len s = (r, s') \<and>
      zfs_read X (f_mapping_host filp) (transfer_uio buf len (f_pos s) UIO_USERSPACE)
        (f_flags filp) (CRED X) = (rc, uio') \<and>
      r = fst (zpl_read_common X (f_mapping_host filp) buf len (f_pos s) UIO_USERSPACE
                 (f_flags filp) (CRED X) (ext (Crhold (CRED X)) s)) \<and>
      r = (if - rc <s 0 then scast (- rc) else len - uio_resid uio') \<and>
      (rc = 0 \<longrightarrow> r = len - uio_resid uio') \<and>
      f_pos s' = (if r <s 0 then f_pos s else f_pos s + r) \<and>
      calls_since s s' =
        [Crhold (CRED X),
         Zfs_read (f_mapping_host filp) (transfer_uio buf len (f_pos s) UIO_USERSPACE)
           (f_flags filp) (CRED X),
         Crfree (CRED X)] \<and>
      (r <s 0 \<longrightarrow> f_pos s' = f_pos s) \<and>
      (\<not> r <s 0 \<longrightarrow> f_pos s' = f_pos s + r \<and>
        (sint (f_pos s) + sint r < 2 ^ 63 \<longrightarrow> sint (f_pos s') = sint (f_pos s) + sint r)) \<and>
      (0 <s rc \<longrightarrow> r <s 0 \<and> f_pos s' = f_pos s) \<and>
      (len = 4096 \<and> rc = 0 \<and> uio_resid uio' = 4096 - 1000 \<longrightarrow>
         r = 1000 \<and> f_pos s' = f_pos s + 1000)) \<and>
   (\<exists>r s' rc uio'.
      zpl_write X filp buf len s = (r, s') \<and>
      zfs_write X (f_mapping_host filp) (transfer_uio buf len (f_pos s) UIO_USERSPACE)
        (f_flags filp) (CRED X) = (rc, uio') \<and>
      r = fst (zpl_write_common X (f_mapping_host filp) buf len (f_pos s) UIO_USERSPACE
                 (f_flags filp) (CRED X) (ext (Crhold (CRED X)) s)) \<and>
      r = (if - rc <s 0 then scast (- rc) else len - uio_resid uio') \<and>
      (rc = 0 \<longrightarrow> r = len - uio_resid uio') \<and>
      f_pos s' = (if r <s 0 then f_pos s else f_pos s + r) \<and>
      calls_since s s' =
        [Crhold (CRED X),
         Zfs_write (f_mapping_host filp) (transfer_uio buf len (f_pos s) UIO_USERSPACE)
           (f_flags filp) (CRED X),
         Crfree (CRED X)] \<and>
      (r <s 0 \<longrightarrow> f_pos s' = f_pos s) \<and>
      (\<not> r <s 0 \<longrightarrow> f_pos s' = f_pos s + r \<and>
        (sint (f_pos s) + sint r < 2 ^ 63 \<longrightarrow> sint (f_pos s') = sint (f_pos s) + sint r)) \<and>
      (0 <s rc \<longrightarrow> r <s 0 \<and> f_pos s' = f_pos s) \<and>
      (len = 4096 \<and> rc = 0 \<and> uio_resid uio' = 4096 - 1000 \<longrightarrow>
         r = 1000 \<and> f_pos s' = f_pos s + 1000))"
proof (rule conjI)
  obtain rc uio' where e: "zfs_read X (f_mapping_host filp)
      (transfer_uio buf len (f_pos s) UIO_USERSPACE) (f_flags filp) (CRED X) = (rc, uio')"
    by (cases "zfs_read X (f_mapping_host filp)
      (transfer_uio buf len (f_pos s) UIO_USERSPACE) (f_flags filp) (CRED X)")
  define r where "r = (if - rc <s 0 then scast (- rc) else len - uio_resid uio')"
  obtain s' where s': "zpl_read X filp buf len s = (r, s')"
      "f_pos s' = (if r <s 0 then f_pos s else f_pos s + r)"
      "r = fst (zpl_read_common X (f_mapping_host filp) buf len (f_pos s) UIO_USERSPACE
                  (f_flags filp) (CRED X) (ext (Crhold (CRED X)) s))"
      "calls_since s s' =
         [Crhold (CRED X),
          Zfs_read (f_mapping_host filp) (transfer_uio buf len (f_pos s) UIO_USERSPACE)
            (f_flags filp) (CRED X),
          Crfree (CRED X)]"
    using zpl_read_result [OF e r_def] by blast
  have succ: "rc = 0 \<longrightarrow> r = len - uio_resid uio'"
    by (simp add: r_def)
  show "\<exists>r s' rc uio'.
      zpl_read X filp buf len s = (r, s') \<and>
      zfs_read X (f_mapping_host filp) (transfer_uio buf len (f_pos s) UIO_USERSPACE)
        (f_flags filp) (CRED X) = (rc, uio') \<and>
      r = fst (zpl_read_common X (f_mapping_host filp) buf len (f_pos s) UIO_USERSPACE
                 (f_flags filp) (CRED X) (ext (Crhold (CRED X)) s)) \<and>
      r = (if - rc <s 0 then scast (- rc) else len - uio_resid uio') \<and>
      (rc = 0 \<longrightarrow> r = len - uio_resid uio') \<and>
      f_pos s' = (if r <s 0 then f_pos s else f_pos s + r) \<and>
      calls_since s s' =
        [Crhold (CRED X),
         Zfs_read (f_mapping_host filp) (transfer_uio buf len (f_pos s) UIO_USERSPACE)
           (f_flags filp) (CRED X),
         Crfree (CRED X)] \<and>
      (r <s 0 \<longrightarrow> f_pos s' = f_pos s) \<and>
      (\<not> r <s 0 \<longrightarrow> f_pos s' = f_pos s + r \<and>
        (sint (f_pos s) + sint r < 2 ^ 63 \<longrightarrow> sint (f_pos s') = sint (f_pos s) + sint r)) \<and>
      (0 <s rc \<longrightarrow> r <s 0 \<and> f_pos s' = f_pos s) \<and>
      (len = 4096 \<and> rc = 0 \<and> uio_resid uio' = 4096 - 1000 \<longrightarrow>
         r = 1000 \<and> f_pos s' = f_pos s + 1000)"
    using s' e r_def succ position_facts [OF r_def s'(2)] by blast
next
  obtain rc uio' where e: "zfs_write X (f_mapping_host filp)
      (transfer_uio buf len (f_pos s) UIO_USERSPACE) (f_flags filp) (CRED X) = (rc, uio')"
    by (cases "zfs_write X (f_mapping_host filp)
      (transfer_uio buf len (f_pos s) UIO_USERSPACE) (f_flags filp) (CRED X)")
  define r where "r = (if - rc <s 0 then scast (- rc) else len - uio_resid uio')"
  obtain s' where s': "zpl_write X filp buf len s = (r, s')"
      "f_pos s' = (if r <s 0 then f_pos s else f_pos s + r)"
      "r = fst (zpl_write_common X (f_mapping_host filp) buf len (f_pos s) UIO_USERSPACE
                  (f_flags filp) (CRED X) (ext (Crhold (CRED X)) s))"
      "calls_since s s' =
         [Crhold (CRED X),
          Zfs_write (f_mapping_host filp) (transfer_uio buf len (f_pos s) UIO_USERSPACE)
            (f_flags filp) (CRED X),
          Crfree (CRED X)]"
    using zpl_write_result [OF e r_def] by blast
  have succ: "rc = 0 \<longrightarrow> r = len - uio_resid uio'"
    by (simp add: r_def)
  show "\<exists>r s' rc uio'.
      zpl_write X filp buf len s = (r, s') \<and>
      zfs_write X (f_mapping_host filp) (transfer_uio buf len (f_pos s) UIO_USERSPACE)
        (f_flags filp) (CRED X) = (rc, uio') \<and>
      r = fst (zpl_write_common X (f_mapping_host filp) buf len (f_pos s) UIO_USERSPACE
                 (f_flags filp) (CRED X) (ext (Crhold (CRED X)) s)) \<and>
      r = (if - rc <s 0 then scast (- rc) else len - uio_resid uio') \<and>
      (rc = 0 \<longrightarrow> r = len - uio_resid uio') \<and>
      f_pos s' = (if r <s 0 then f_pos s else f_pos s + r) \<and>
      calls_since s s' =
        [Crhold (CRED X),
         Zfs_write (f_mapping_host filp) (transfer_uio buf len (f_pos s) UIO_USERSPACE)
           (f_flags filp) (CRED X),
         Crfree (CRED X)] \<and>
      (r <s 0 \<longrightarrow> f_pos s' = f_pos s) \<and>
      (\<not> r <s 0 \<longrightarrow> f_pos s' = f_pos s + r \<and>
        (sint (f_pos s) + sint r < 2 ^ 63 \<longrightarrow> sint (f_pos s') = sint (f_pos s) + sint r)) \<and>
      (0 <s rc \<longrightarrow> r <s 0 \<and> f_pos s' = f_pos s) \<and>
      (len = 4096 \<and> rc = 0 \<and> uio_resid uio' = 4096 - 1000 \<longrightarrow>
         r = 1000 \<and> f_pos s' = f_pos s + 1000)"
    using s' e r_def succ position_facts [OF r_def s'(2)] by blast
qed

theorem zpl_read_write_position_witness:
  "zpl_read sample_extern sample_file 0 4096 sample_kstate =
     (1000, sample_kstate\<lparr>f_pos := 1000, klog :=
        [Crhold 0,
         Zfs_read 1 \<lparr>uio_iov = [\<lparr>iov_base = 0, iov_len = 4096\<rparr>], uio_iovcnt = 1,
           uio_loffset = 0, uio_limit = MAXOFFSET_T, uio_segflg = UIO_USERSPACE,
           uio_resid = 4096\<rparr> 2 0,
         Crfree 0]\<rparr>) \<and>
   fst (zpl_write sample_extern sample_file 0 500 sample_kstate) = 500 \<and>
   f_pos (snd (zpl_write sample_extern sample_file 0 500 sample_kstate)) = 500 \<and>
   fst (zpl_write (sample_extern\<lparr>zfs_write := (\<lambda>ip uio flags cr. (28, uio))\<rparr>)
          sample_file 0 4096 sample_kstate) = - 28 \<and>
   f_pos (snd (zpl_write (sample_extern\<lparr>zfs_write := (\<lambda>ip uio flags cr. (28, uio))\<rparr>)
          sample_file 0 4096 sample_kstate)) = f_pos sample_kstate"
  using zpl_read_write_position
      [where X = sample_extern and filp = sample_file and buf = 0 and len = 4096
         and s = sample_kstate]
    zpl_read_write_position
      [where X = sample_extern and filp = sample_file and buf = 0 and len = 500
         and s = sample_kstate]
    zpl_read_write_position
      [where X = "sample_extern\<lparr>zfs_write := (\<lambda>ip uio flags cr. (28, uio))\<rparr>"
         and filp = sample_file and buf = 0 and len = 4096 and s = sample_kstate]
  by (simp add: zpl_read_def zpl_write_def zpl_read_common_def zpl_write_common_def ext_def
      sample_defs Let_def word_sless_alt)

subsection \<open>Flag translation\<close>










subsection \<open>Setting flags\<close>

text \<open>
  C5. When \<^verbatim>\<open>copy_from_user\<close> keeps to its contract (at most the 4 bytes asked
  for are left uncopied): a caller whose flag word was read and who is neither the
  owner nor privileged gets \<^verbatim>\<open>-EACCES\<close>, whatever bits the word has, so also for
  a bit outside the six recognised ones; the result is not \<^verbatim>\<open>-EOPNOTSUPP\<close> and
  the engine is not called. And \<^verbatim>\<open>-EOPNOTSUPP\<close> is returned only when the word
  was read, the caller is the owner or privileged, and the word is within the
  user-modifiable mask: only past the permission check.
\<close>

theorem zpl_ioctl_setflags_permission_first:
  assumes "copy_from_user X arg 4 = (left, flags)" and "left \<le> 4"
  shows "(left = 0 \<and> \<not> is_owner_or_cap X (f_dentry_inode filp) \<longrightarrow>
            fst (zpl_ioctl_setflags X filp arg s) = - EACCES \<and>
            fst (zpl_ioctl_setflags X filp arg s) \<noteq> - EOPNOTSUPP \<and>
            Zfs_setattr \<notin> set (calls_since s (snd (zpl_ioctl_setflags X filp arg s)))) \<and>
         (fst (zpl_ioctl_setflags X filp arg s) = - EOPNOTSUPP \<longrightarrow>
            left = 0 \<and> is_owner_or_cap X (f_dentry_inode filp) \<and>
            flags AND NOT FS_FL_USER_MODIFIABLE = 0)"
  using assms(1) small_count [OF assms(2)]
  apply (simp add: zpl_ioctl_setflags_def Let_def EACCES_def EOPNOTSUPP_def calls_since_def ext_def)
  apply auto
  done

theorem zpl_ioctl_setflags_permission_first_witness:
  "copy_from_user (sample_extern\<lparr>copy_from_user := (\<lambda>from n. (0, 0x00000004)),
                                  is_owner_or_cap := (\<lambda>ip. False)\<rparr>) 0 4 = (0, 0x00000004) \<and>
   (0 :: c_ulong) \<le> 4 \<and>
   (0x00000004 :: c_uint) AND NOT setflags_mask \<noteq> 0 \<and>
   \<not> is_owner_or_cap (sample_extern\<lparr>copy_from_user := (\<lambda>from n. (0, 0x00000004)),
                                     is_owner_or_cap := (\<lambda>ip. False)\<rparr>)
        (f_dentry_inode sample_file) \<and>
   fst (zpl_ioctl_setflags (sample_extern\<lparr>copy_from_user := (\<lambda>from n. (0, 0x00000004)),
                                            is_owner_or_cap := (\<lambda>ip. False)\<rparr>)
          sample_file 0 sample_kstate) = - EACCES \<and>
   copy_from_user (sample_extern\<lparr>copy_from_user := (\<lambda>from n. (0, 0x00000004))\<rparr>) 0 4 =
     (0, 0x00000004) \<and>
   is_owner_or_cap (sample_extern\<lparr>copy_from_user := (\<lambda>from n. (0, 0x00000004))\<rparr>)
     (f_dentry_inode sample_file) \<and>
   fst (zpl_ioctl_setflags (sample_extern\<lparr>copy_from_user := (\<lambda>from n. (0, 0x00000004))\<rparr>)
          sample_file 0 sample_kstate) = - EOPNOTSUPP"
  using zpl_ioctl_setflags_permission_first
      [where X = "sample_extern\<lparr>copy_from_user := (\<lambda>from n. (0, 0x00000004)),
                               is_owner_or_cap := (\<lambda>ip. False)\<rparr>"
         and arg = 0 and left = 0 and flags = "0x00000004" and filp = sample_file
         and s = sample_kstate]
    zpl_ioctl_setflags_permission_first
      [where X = "sample_extern\<lparr>copy_from_user := (\<lambda>from n. (0, 0x00000004))\<rparr>"
         and arg = 0 and left = 0 and flags = "0x00000004" and filp = sample_file
         and s = sample_kstate]
  by (simp add: zpl_ioctl_setflags_def setflags_mask_def fs_flag_defs sample_defs ext_def Let_def)

text \<open>
  C6. The claim is that an accepted request applies the internal flags that
  correspond to the requested bits to the file, through the engine's attribute-set
  primitive. Line 464 calls \<^verbatim>\<open>zfs_setattr()\<close> with no argument: neither the inode
  nor the flag word reaches the engine. An owner's request for \<^verbatim>\<open>FS_IMMUTABLE_FL\<close>
  and an owner's request for no flag at all make the same three calls, the last one
  the argument-free engine call, and end in the same state with the same result (the
  negated engine status, which is the part of the claim that holds).
\<close>

theorem zpl_ioctl_setflags_drops_request:
  "zpl_ioctl_setflags (sample_extern\<lparr>copy_from_user := (\<lambda>from n. (0, FS_IMMUTABLE_FL))\<rparr>)
     sample_file 0 sample_kstate =
   (0, sample_kstate\<lparr>klog := [Copy_from_user 0 4, Is_owner_or_cap 1, Zfs_setattr]\<rparr>) \<and>
   zpl_ioctl_setflags (sample_extern\<lparr>copy_from_user := (\<lambda>from n. (0, 0))\<rparr>)
     sample_file 0 sample_kstate =
   (0, sample_kstate\<lparr>klog := [Copy_from_user 0 4, Is_owner_or_cap 1, Zfs_setattr]\<rparr>)"
  by (simp add: zpl_ioctl_setflags_def sample_extern_def sample_file_def sample_kstate_def
      ext_def fs_flag_defs Let_def)

subsection \<open>The ioctl entry point\<close>

text \<open>
  C9. With two distinct command codes (equal \<^verbatim>\<open>case\<close> labels do not compile),
  \<^verbatim>\<open>zpl_ioctl\<close> on \<^verbatim>\<open>ZFS_IOC_GETFLAGS\<close> is \<^verbatim>\<open>zpl_ioctl_getflags\<close>, on
  \<^verbatim>\<open>ZFS_IOC_SETFLAGS\<close> it is \<^verbatim>\<open>zpl_ioctl_setflags\<close> (their \<^verbatim>\<open>int\<close> widened to
  \<^verbatim>\<open>long\<close>), and on every other code it makes no call and returns \<^verbatim>\<open>-ENOTTY\<close>
  (-25), the error of an ioctl that the file does not support.
\<close>

theorem zpl_ioctl_dispatch:
  assumes "ZFS_IOC_GETFLAGS H \<noteq> ZFS_IOC_SETFLAGS H"
  shows "(cmd = ZFS_IOC_GETFLAGS H \<longrightarrow>
            zpl_ioctl H X filp cmd arg s =
              (scast (fst (zpl_ioctl_getflags H X filp arg s)),
               snd (zpl_ioctl_getflags H X filp arg s))) \<and>
         (cmd = ZFS_IOC_SETFLAGS H \<longrightarrow>
            zpl_ioctl H X filp cmd arg s =
              (scast (fst (zpl_ioctl_setflags X filp arg s)),
               snd (zpl_ioctl_setflags X filp arg s))) \<and>
         (cmd \<noteq> ZFS_IOC_GETFLAGS H \<and> cmd \<noteq> ZFS_IOC_SETFLAGS H \<longrightarrow>
            zpl_ioctl H X filp cmd arg s = (scast (- ENOTTY), s) \<and>
            sint (fst (zpl_ioctl H X filp cmd arg s)) = - 25)"
  using assms
  by (simp add: zpl_ioctl_def split_def Let_def sint_scast_int_ssize ENOTTY_def)

theorem zpl_ioctl_dispatch_witness:
  "ZFS_IOC_GETFLAGS sample_zfs_h \<noteq> ZFS_IOC_SETFLAGS sample_zfs_h \<and>
   zpl_ioctl sample_zfs_h sample_extern sample_file 0x80086601 0 sample_kstate =
     (0, sample_kstate\<lparr>klog := [Zfs_getflags 1, Copy_to_user 0 FS_IMMUTABLE_FL 4]\<rparr>) \<and>
   zpl_ioctl sample_zfs_h sample_extern sample_file 0x40086602 0 sample_kstate =
     (0, sample_kstate\<lparr>klog := [Copy_from_user 0 4, Is_owner_or_cap 1, Zfs_setattr]\<rparr>) \<and>
   zpl_ioctl sample_zfs_h sample_extern sample_file 0x5401 0 sample_kstate =
     (- 25, sample_kstate)"
  using zpl_ioctl_dispatch
      [where H = sample_zfs_h and cmd = "0x80086601" and X = sample_extern
         and filp = sample_file and arg = 0 and s = sample_kstate]
    zpl_ioctl_dispatch
      [where H = sample_zfs_h and cmd = "0x40086602" and X = sample_extern
         and filp = sample_file and arg = 0 and s = sample_kstate]
    zpl_ioctl_dispatch
      [where H = sample_zfs_h and cmd = "0x5401" and X = sample_extern
         and filp = sample_file and arg = 0 and s = sample_kstate]
  by (simp add: zpl_ioctl_def zpl_ioctl_getflags_def zpl_ioctl_setflags_def
      zpl_get_ioctl_flags_def fs_flag_defs ENOTTY_def sample_defs ext_def Let_def)

subsection \<open>Getting flags\<close>

text \<open>
  C10. \<^verbatim>\<open>zpl_ioctl_getflags\<close>, with \<^verbatim>\<open>copy_to_user\<close> within its contract (at
  most the 4 bytes asked for are left uncopied): an engine error number comes back
  negated, a negative value; a failed copy comes back as the count of bytes not
  copied, a positive value; success is zero. So a failed copy is on the same side
  of zero as success.
\<close>

theorem zpl_ioctl_getflags_sign:
  assumes "zfs_getflags X (f_dentry_inode filp) = (rc, zfs_flags)"
    and "copy_to_user X arg (zpl_get_ioctl_flags H zfs_flags) 4 = left"
    and "left \<le> 4"
  shows "(0 <s rc \<longrightarrow>
            fst (zpl_ioctl_getflags H X filp arg s) = - rc \<and>
            fst (zpl_ioctl_getflags H X filp arg s) <s 0) \<and>
         (rc = 0 \<and> left \<noteq> 0 \<longrightarrow>
            fst (zpl_ioctl_getflags H X filp arg s) = ucast left \<and>
            sint (fst (zpl_ioctl_getflags H X filp arg s)) = uint left \<and>
            0 <s fst (zpl_ioctl_getflags H X filp arg s)) \<and>
         (rc = 0 \<and> left = 0 \<longrightarrow> fst (zpl_ioctl_getflags H X filp arg s) = 0)"
  using assms(1,2) small_count [OF assms(3)]
  apply (simp add: zpl_ioctl_getflags_def Let_def neg_status_sless)
  apply (auto simp: word_sless_alt)
  done

theorem zpl_ioctl_getflags_sign_witness:
  "zfs_getflags (sample_extern\<lparr>zfs_getflags := (\<lambda>ip. (5, 0))\<rparr>) (f_dentry_inode sample_file) =
     (5, 0) \<and> (0 :: c_int) <s 5 \<and>
   fst (zpl_ioctl_getflags sample_zfs_h (sample_extern\<lparr>zfs_getflags := (\<lambda>ip. (5, 0))\<rparr>)
          sample_file 0 sample_kstate) = - 5 \<and>
   copy_to_user (sample_extern\<lparr>copy_to_user := (\<lambda>to v n. 4)\<rparr>) 0
     (zpl_get_ioctl_flags sample_zfs_h 0x0000001000000000) 4 = 4 \<and>
   (4 :: c_ulong) \<le> 4 \<and>
   fst (zpl_ioctl_getflags sample_zfs_h (sample_extern\<lparr>copy_to_user := (\<lambda>to v n. 4)\<rparr>)
          sample_file 0 sample_kstate) = 4 \<and>
   fst (zpl_ioctl_getflags sample_zfs_h sample_extern sample_file 0 sample_kstate) = 0"
  using zpl_ioctl_getflags_sign
      [where X = "sample_extern\<lparr>zfs_getflags := (\<lambda>ip. (5, 0))\<rparr>" and filp = sample_file
         and rc = 5 and zfs_flags = 0 and arg = 0 and H = sample_zfs_h and left = 0
         and s = sample_kstate]
    zpl_ioctl_getflags_sign
      [where X = "sample_extern\<lparr>copy_to_user := (\<lambda>to v n. 4)\<rparr>" and filp = sample_file
         and rc = 0 and zfs_flags = "0x0000001000000000" and arg = 0 and H = sample_zfs_h
         and left = 4 and s = sample_kstate]
    zpl_ioctl_getflags_sign
      [where X = sample_extern and filp = sample_file
         and rc = 0 and zfs_flags = "0x0000001000000000" and arg = 0 and H = sample_zfs_h
         and left = 0 and s = sample_kstate]
  by (simp add: zpl_ioctl_getflags_def sample_defs ext_def Let_def word_sless_alt)

subsection \<open>The mapped flag\<close>

lemma mapped_ext [simp]: "z_is_mapped (ext c s) = z_is_mapped s"
  by (simp add: ext_def)

lemma mapped_page_prims [simp]:
  "z_is_mapped (SetPageError p s) = z_is_mapped s"
  "z_is_mapped (ClearPageError p s) = z_is_mapped s"
  "z_is_mapped (SetPageUptodate p s) = z_is_mapped s"
  "z_is_mapped (ClearPageUptodate p s) = z_is_mapped s"
  "z_is_mapped (flush_dcache_page p s) = z_is_mapped s"
  "z_is_mapped (unlock_page p s) = z_is_mapped s"
  "z_is_mapped (page_cache_release p s) = z_is_mapped s"
  by (simp_all add: page_prim_defs)

lemma mapped_readpages_walk:
  "z_is_mapped (snd (readpages_walk ps l s)) = z_is_mapped s"
  by (induction ps arbitrary: l s) (simp_all add: Let_def)

lemma mapped_zpl_readpages:
  "zpl_readpages X filp ip l n s = Some (r, l', s') \<Longrightarrow> z_is_mapped s' = z_is_mapped s"
  using mapped_readpages_walk [of "rev l" l "ext (Zfs_getpage ip (rev l) n) (ext (Kmalloc (8 * n)) s)"]
  by (auto simp: zpl_readpages_def pages_vector_from_list_def Let_def split_def
      split: if_splits)

lemma mapped_zpl_readpage:
  "zpl_readpage X filp pp s = Some (r, s') \<Longrightarrow> z_is_mapped s' = z_is_mapped s"
  by (auto simp: zpl_readpage_def Let_def split: if_splits)

lemma mapped_zpl_putpage:
  "z_is_mapped (snd (zpl_putpage X pp wbc data s)) = z_is_mapped s"
  by (simp add: zpl_putpage_def Let_def)

lemma mapped_write_cache_pages_walk:
  assumes "\<And>p s. z_is_mapped (snd (cb p s)) = z_is_mapped s"
  shows "z_is_mapped (snd (write_cache_pages_walk cb ps s)) = z_is_mapped s"
proof (induction ps arbitrary: s)
  case Nil
  show ?case by simp
next
  case (Cons p ps)
  show ?case
    using assms [of p s] Cons.IH [of "snd (cb p s)"]
    by (simp add: split_def Let_def)
qed

lemma mapped_zpl_writepages:
  "z_is_mapped (snd (zpl_writepages X mapping wbc s)) = z_is_mapped s"
  by (simp add: zpl_writepages_def write_cache_pages_def mapped_write_cache_pages_walk
      mapped_zpl_putpage)

lemma mapped_zpl_writepage:
  "z_is_mapped (snd (zpl_writepage X pp wbc s)) = z_is_mapped s"
  by (simp add: zpl_writepage_def mapped_zpl_putpage)

lemma mapped_zpl_open:
  "zpl_open X ip filp s = Some (r, s') \<Longrightarrow> z_is_mapped s' = z_is_mapped s"
  by (auto simp: zpl_open_def Let_def split: if_splits)

lemma mapped_zpl_release:
  "zpl_release X ip filp s = Some (r, s') \<Longrightarrow> z_is_mapped s' = z_is_mapped s"
  by (auto simp: zpl_release_def Let_def split: if_splits)

lemma mapped_zpl_readdir:
  "zpl_readdir X filp s = Some (r, s') \<Longrightarrow> z_is_mapped s' = z_is_mapped s"
  by (auto simp: zpl_readdir_def Let_def split_def split: if_splits)

lemma mapped_zpl_fsync:
  "zpl_fsync X filp d s = Some (r, s') \<Longrightarrow> z_is_mapped s' = z_is_mapped s"
  by (auto simp: zpl_fsync_def Let_def split: if_splits)

lemma mapped_zpl_read:
  "z_is_mapped (snd (zpl_read X filp buf len s)) = z_is_mapped s"
  by (simp add: zpl_read_def zpl_read_common_def Let_def split_def)

lemma mapped_zpl_write:
  "z_is_mapped (snd (zpl_write X filp buf len s)) = z_is_mapped s"
  by (simp add: zpl_write_def zpl_write_common_def Let_def split_def)

lemma mapped_zpl_ioctl:
  "z_is_mapped (snd (zpl_ioctl H X filp cmd arg s)) = z_is_mapped s"
  by (simp add: zpl_ioctl_def zpl_ioctl_getflags_def zpl_ioctl_setflags_def Let_def split_def)

lemma mapped_zpl_mmap:
  "zpl_mmap X filp vma s = Some (r, s') \<Longrightarrow> z_is_mapped s \<Longrightarrow> z_is_mapped s'"
  by (auto simp: zpl_mmap_def mutex_enter_z_lock_def mutex_exit_z_lock_def
      store_z_is_mapped_def Let_def split: if_splits)

lemma mapped_zpl_operation:
  "zpl_operation H X op s = Some s' \<Longrightarrow> z_is_mapped s \<Longrightarrow> z_is_mapped s'"
proof (cases op)
  case (Op_readpages filp mapping l n)
  assume "zpl_operation H X op s = Some s'" "z_is_mapped s"
  then show ?thesis using Op_readpages mapped_zpl_readpages by auto
next
  case (Op_readpage filp pp)
  assume "zpl_operation H X op s = Some s'" "z_is_mapped s"
  then show ?thesis using Op_readpage mapped_zpl_readpage by auto
next
  case (Op_writepage pp wbc)
  assume "zpl_operation H X op s = Some s'" "z_is_mapped s"
  then show ?thesis using Op_writepage mapped_zpl_writepage by auto
next
  case (Op_writepages mapping wbc)
  assume "zpl_operation H X op s = Some s'" "z_is_mapped s"
  then show ?thesis using Op_writepages mapped_zpl_writepages by auto
next
  case (Op_open ip filp)
  assume "zpl_operation H X op s = Some s'" "z_is_mapped s"
  then show ?thesis using Op_open mapped_zpl_open by auto
next
  case (Op_release ip filp)
  assume "zpl_operation H X op s = Some s'" "z_is_mapped s"
  then show ?thesis using Op_release mapped_zpl_release by auto
next
  case (Op_read filp buf len)
  assume "zpl_operation H X op s = Some s'" "z_is_mapped s"
  then show ?thesis using Op_read mapped_zpl_read by auto
next
  case (Op_write filp buf len)
  assume "zpl_operation H X op s = Some s'" "z_is_mapped s"
  then show ?thesis using Op_write mapped_zpl_write by auto
next
  case (Op_readdir filp)
  assume "zpl_operation H X op s = Some s'" "z_is_mapped s"
  then show ?thesis using Op_readdir mapped_zpl_readdir by auto
next
  case (Op_mmap filp vma)
  assume "zpl_operation H X op s = Some s'" "z_is_mapped s"
  then show ?thesis using Op_mmap mapped_zpl_mmap by auto
next
  case (Op_fsync filp d)
  assume "zpl_operation H X op s = Some s'" "z_is_mapped s"
  then show ?thesis using Op_fsync mapped_zpl_fsync by auto
next
  case (Op_ioctl filp cmd arg)
  assume "zpl_operation H X op s = Some s'" "z_is_mapped s"
  then show ?thesis using Op_ioctl mapped_zpl_ioctl by auto
qed

lemma mapped_zpl_run:
  "zpl_run H ops s = Some s' \<Longrightarrow> z_is_mapped s \<Longrightarrow> z_is_mapped s'"
proof (induction ops arbitrary: s)
  case Nil
  then show ?case by simp
next
  case (Cons a ops)
  obtain X op where a: "a = (X, op)" by (cases a)
  from Cons.prems(1) obtain s1 where s1: "zpl_operation H X op s = Some s1"
    and rest: "zpl_run H ops s1 = Some s'"
    by (auto simp: a split: option.splits)
  from mapped_zpl_operation [OF s1 Cons.prems(2)] have "z_is_mapped s1" .
  with Cons.IH [OF rest] show ?case .
qed

lemma zpl_mmap_cases:
  assumes "zfs_map X (f_mapping_host filp) (vm_pgoff vma) (vm_start vma)
             (vm_end vma - vm_start vma) (vm_flags vma) = rc"
    and "generic_file_mmap X filp vma = e"
  shows "zpl_mmap X filp vma s =
     (let c1 = Zfs_map (f_mapping_host filp) (vm_pgoff vma) (vm_start vma)
                 (vm_end vma - vm_start vma) (vm_flags vma);
          c2 = Generic_file_mmap filp vma
      in if rc \<noteq> 0 then Some (- rc, s\<lparr>klog := klog s @ [c1]\<rparr>)
         else if e \<noteq> 0 then Some (e, s\<lparr>klog := klog s @ [c1, c2]\<rparr>)
         else if z_lock_held s then None
         else Some (0, s\<lparr>z_is_mapped := True,
                        klog := klog s @ [c1, c2, Mutex_enter_z_lock, Store_z_is_mapped True,
                                          Mutex_exit_z_lock]\<rparr>))"
  using assms
  by (simp add: zpl_mmap_def mutex_enter_z_lock_def mutex_exit_z_lock_def
      store_z_is_mapped_def ext_def Let_def)

text \<open>
  C8. \<^verbatim>\<open>zpl_mmap\<close> calls the engine's \<^verbatim>\<open>zfs_map\<close> first. When that fails the
  call returns the negated status having made no other call: the host's
  \<^verbatim>\<open>generic_file_mmap\<close> is not reached and the flag is untouched. When the host's
  setup fails the call returns its error and the flag is untouched. When both succeed
  (and the mutex is free) the call returns 0 after \<^verbatim>\<open>mutex_enter\<close>, the store of
  the flag with the mutex held, and \<^verbatim>\<open>mutex_exit\<close>; the flag is set and the mutex
  released. And whatever sequence of the operations of the file's tables runs, with
  whatever engine and host, a flag that is set stays set.
\<close>

theorem zpl_mmap_mapped_flag:
  assumes "zfs_map X (f_mapping_host filp) (vm_pgoff vma) (vm_start vma)
             (vm_end vma - vm_start vma) (vm_flags vma) = rc"
    and "generic_file_mmap X filp vma = e"
  shows "(rc \<noteq> 0 \<longrightarrow>
           (\<exists>s'. zpl_mmap X filp vma s = Some (- rc, s') \<and>
                 calls_since s s' =
                   [Zfs_map (f_mapping_host filp) (vm_pgoff vma) (vm_start vma)
                      (vm_end vma - vm_start vma) (vm_flags vma)] \<and>
                 z_is_mapped s' = z_is_mapped s)) \<and>
         (rc = 0 \<and> e \<noteq> 0 \<longrightarrow>
           (\<exists>s'. zpl_mmap X filp vma s = Some (e, s') \<and>
                 calls_since s s' =
                   [Zfs_map (f_mapping_host filp) (vm_pgoff vma) (vm_start vma)
                      (vm_end vma - vm_start vma) (vm_flags vma),
                    Generic_file_mmap filp vma] \<and>
                 z_is_mapped s' = z_is_mapped s)) \<and>
         (rc = 0 \<and> e = 0 \<and> \<not> z_lock_held s \<longrightarrow>
           (\<exists>s'. zpl_mmap X filp vma s = Some (0, s') \<and>
                 calls_since s s' =
                   [Zfs_map (f_mapping_host filp) (vm_pgoff vma) (vm_start vma)
                      (vm_end vma - vm_start vma) (vm_flags vma),
                    Generic_file_mmap filp vma,
                    Mutex_enter_z_lock, Store_z_is_mapped True, Mutex_exit_z_lock] \<and>
                 z_is_mapped s' \<and> \<not> z_lock_held s')) \<and>
         (\<forall>ops s'. zpl_run H ops s = Some s' \<and> z_is_mapped s \<longrightarrow> z_is_mapped s')"
proof -
  have "\<forall>ops s'. zpl_run H ops s = Some s' \<and> z_is_mapped s \<longrightarrow> z_is_mapped s'"
    using mapped_zpl_run by blast
  then show ?thesis
    by (simp add: zpl_mmap_cases [OF assms] calls_since_def Let_def)
qed

theorem zpl_mmap_mapped_flag_witness:
  "zpl_mmap (sample_extern\<lparr>zfs_map := (\<lambda>ip off addr len flags. 13)\<rparr>) sample_file sample_vma
       sample_kstate =
     Some (- 13, sample_kstate\<lparr>klog := [Zfs_map 1 0 0x1000 0x2000 3]\<rparr>) \<and>
   zpl_mmap (sample_extern\<lparr>generic_file_mmap := (\<lambda>filp vma. - 8)\<rparr>) sample_file sample_vma
       sample_kstate =
     Some (- 8, sample_kstate\<lparr>klog := [Zfs_map 1 0 0x1000 0x2000 3,
                                        Generic_file_mmap sample_file sample_vma]\<rparr>) \<and>
   \<not> z_lock_held sample_kstate \<and> \<not> z_is_mapped sample_kstate \<and>
   zpl_mmap sample_extern sample_file sample_vma sample_kstate =
     Some (0, sample_kstate\<lparr>z_is_mapped := True,
                klog := [Zfs_map 1 0 0x1000 0x2000 3,
                         Generic_file_mmap sample_file sample_vma,
                         Mutex_enter_z_lock, Store_z_is_mapped True, Mutex_exit_z_lock]\<rparr>) \<and>
   z_is_mapped (sample_kstate\<lparr>z_is_mapped := True\<rparr>) \<and>
   map_option z_is_mapped
     (zpl_run sample_zfs_h
        [(sample_extern, Op_read sample_file 0 4096),
         (sample_extern\<lparr>zfs_map := (\<lambda>ip off addr len flags. 13)\<rparr>,
          Op_mmap sample_file sample_vma),
         (sample_extern, Op_ioctl sample_file 0 0),
         (sample_extern, Op_release 1 sample_file)]
        (sample_kstate\<lparr>z_is_mapped := True\<rparr>)) = Some True"
  using zpl_mmap_mapped_flag
      [where X = "sample_extern\<lparr>zfs_map := (\<lambda>ip off addr len flags. 13)\<rparr>"
         and filp = sample_file and vma = sample_vma and rc = 13 and e = 0
         and s = sample_kstate and H = sample_zfs_h]
    zpl_mmap_mapped_flag
      [where X = "sample_extern\<lparr>generic_file_mmap := (\<lambda>filp vma. - 8)\<rparr>"
         and filp = sample_file and vma = sample_vma and rc = 0 and e = "- 8"
         and s = sample_kstate and H = sample_zfs_h]
    zpl_mmap_mapped_flag
      [where X = sample_extern and filp = sample_file and vma = sample_vma and rc = 0
         and e = 0 and s = sample_kstate and H = sample_zfs_h]
    zpl_mmap_mapped_flag
      [where X = sample_extern and filp = sample_file and vma = sample_vma and rc = 0
         and e = 0 and s = "sample_kstate\<lparr>z_is_mapped := True\<rparr>" and H = sample_zfs_h]
  by (simp add: zpl_mmap_def mutex_enter_z_lock_def mutex_exit_z_lock_def store_z_is_mapped_def
      zpl_read_def zpl_read_common_def zpl_ioctl_def zpl_release_def ENOTTY_def
      sample_defs sample_vma_def ext_def Let_def word_sless_alt)

end
